theory Spec2Isabelle
  imports Main "HOL-Library.Word"
begin

section \<open>Basic types\<close>

text \<open>
  Go's \<open>uint64\<close> is a 64-bit word (addition, subtraction and multiplication wrap, the
  order is the unsigned one); \<open>*big.Int\<close> is an unbounded \<open>int\<close>; \<open>[]byte\<close> is a list
  of 8-bit words, \<open>nil\<close> being the empty list; \<open>common.Address\<close> is 20 bytes and
  \<open>common.Hash\<close> 32 bytes.
\<close>

type_synonym u64 = "64 word"
type_synonym byte = "8 word"
type_synonym bytes = "byte list"
type_synonym address = "160 word"
type_synonym hash = "256 word"

definition MaxUint64 :: u64 where
  "MaxUint64 = - 1"

text \<open>
  The errors the two source files return or pass on. \<open>ErrOutOfGas\<close> and
  \<open>ErrInsufficientBalance\<close> are the ones of package \<open>vm\<close>; any other error of the
  virtual machine or of the signer is \<open>ErrOther\<close> with its message.
\<close>

datatype error =
    ErrNonceTooHigh
  | ErrNonceTooLow
  | ErrInsufficientBalanceForGas
  | ErrGasLimitReached
  | ErrOutOfGas
  | ErrInsufficientBalance
  | ErrOther string

section \<open>Protocol constants\<close>

text \<open>
  The constants of package \<open>params\<close> that \<open>IntrinsicGas\<close> reads are not part of the
  two files; they are a parameter of the model.
\<close>

record Params =
  TxGas :: u64
  TxGasContractCreation :: u64
  TxDataNonZeroGas :: u64
  TxDataZeroGas :: u64

section \<open>IntrinsicGas\<close>

text \<open>The loop \<open>for _, byt := range data { if byt != 0 { nz++ } }\<close>.\<close>

fun count_nz :: "bytes \<Rightarrow> u64 \<Rightarrow> u64" where
  "count_nz [] nz = nz"
| "count_nz (byt # rest) nz = count_nz rest (if byt \<noteq> 0 then nz + 1 else nz)"

definition IntrinsicGas :: "Params \<Rightarrow> bytes \<Rightarrow> bool \<Rightarrow> bool \<Rightarrow> error + u64" where
  "IntrinsicGas ps data contractCreation homestead =
     (let gas = (if contractCreation \<and> homestead then TxGasContractCreation ps else TxGas ps)
      in if length data > 0 then
           (let nz = count_nz data 0
            in if (MaxUint64 - gas) div TxDataNonZeroGas ps < nz then Inl ErrOutOfGas
               else
                 (let gas1 = gas + nz * TxDataNonZeroGas ps;
                      z = of_nat (length data) - nz
                  in if (MaxUint64 - gas1) div TxDataZeroGas ps < z then Inl ErrOutOfGas
                     else Inr (gas1 + z * TxDataZeroGas ps)))
         else Inr gas)"


section \<open>GasPool\<close>

text \<open>
  Modelled from the spec: the file defining \<open>GasPool\<close> (\<open>AddGas\<close>, \<open>SubGas\<close>) is not
  among the sources. The pool is a single unsigned 64-bit counter; adding saturates at
  the largest representable value; subtracting fails with \<open>GasLimitReached\<close> when the
  amount exceeds what is available and leaves the counter unchanged then.
\<close>

type_synonym GasPool = u64

definition AddGas :: "GasPool \<Rightarrow> u64 \<Rightarrow> GasPool" where
  "AddGas gp amount = (if MaxUint64 - amount < gp then MaxUint64 else gp + amount)"

definition SubGas :: "GasPool \<Rightarrow> u64 \<Rightarrow> error + GasPool" where
  "SubGas gp amount = (if gp < amount then Inl ErrGasLimitReached else Inr (gp - amount))"

section \<open>WorldState\<close>

text \<open>
  Modelled from the spec: package \<open>state\<close> is not among the sources. The world state
  holds account balances and nonces, the refund counter accumulated during execution,
  and the pending logs keyed by transaction hash, with the transaction context that
  \<open>Prepare\<close> marks.
\<close>

record Log =
  log_address :: address
  log_topics :: "hash list"
  log_data :: bytes

record StateDB =
  db_balance :: "address \<Rightarrow> int"
  db_nonce :: "address \<Rightarrow> u64"
  db_refund :: u64
  db_logs :: "hash \<Rightarrow> Log list"
  db_thash :: hash
  db_bhash :: hash
  db_txIndex :: nat

definition GetBalance :: "StateDB \<Rightarrow> address \<Rightarrow> int" where
  "GetBalance s a = db_balance s a"

definition AddBalance :: "StateDB \<Rightarrow> address \<Rightarrow> int \<Rightarrow> StateDB" where
  "AddBalance s a amount = s\<lparr>db_balance := (db_balance s)(a := db_balance s a + amount)\<rparr>"

definition SubBalance :: "StateDB \<Rightarrow> address \<Rightarrow> int \<Rightarrow> StateDB" where
  "SubBalance s a amount = s\<lparr>db_balance := (db_balance s)(a := db_balance s a - amount)\<rparr>"

definition GetNonce :: "StateDB \<Rightarrow> address \<Rightarrow> u64" where
  "GetNonce s a = db_nonce s a"

definition SetNonce :: "StateDB \<Rightarrow> address \<Rightarrow> u64 \<Rightarrow> StateDB" where
  "SetNonce s a n = s\<lparr>db_nonce := (db_nonce s)(a := n)\<rparr>"

definition GetRefund :: "StateDB \<Rightarrow> u64" where
  "GetRefund s = db_refund s"

definition GetLogs :: "StateDB \<Rightarrow> hash \<Rightarrow> Log list" where
  "GetLogs s h = db_logs s h"

definition Prepare :: "StateDB \<Rightarrow> hash \<Rightarrow> hash \<Rightarrow> nat \<Rightarrow> StateDB" where
  "Prepare s th bh ti = s\<lparr>db_thash := th, db_bhash := bh, db_txIndex := ti\<rparr>"

section \<open>Message, Executor and EVM\<close>

text \<open>The \<open>Message\<close> interface: one field for each of its methods.\<close>

record Message =
  From :: address
  To :: "address option"
  GasPrice :: int
  Gas :: u64
  Value :: int
  Nonce :: u64
  CheckNonce :: bool
  Data :: bytes

text \<open>
  The bytecode interpreter behind \<open>evm.Create\<close> and \<open>evm.Call\<close> is a parameter: each
  takes the world state it runs on and returns the world state it leaves, with the
  returned data, the gas left over and the execution error, if any. \<open>Create\<close> also
  returns the address of the new contract, which \<open>TransitionDb\<close> drops.
\<close>

record Executor =
  Create :: "StateDB \<Rightarrow> address \<Rightarrow> bytes \<Rightarrow> u64 \<Rightarrow> int
               \<Rightarrow> (bytes \<times> address \<times> u64 \<times> error option) \<times> StateDB"
  Call :: "StateDB \<Rightarrow> address \<Rightarrow> address \<Rightarrow> bytes \<Rightarrow> u64 \<Rightarrow> int
               \<Rightarrow> (bytes \<times> u64 \<times> error option) \<times> StateDB"

text \<open>The chain configuration's fork predicates, by block number.\<close>

record ChainConfig =
  IsHomestead :: "int \<Rightarrow> bool"
  IsByzantium :: "int \<Rightarrow> bool"
  IsEIP158 :: "int \<Rightarrow> bool"
  DAOForkSupport :: bool
  DAOForkBlock :: "int option"

record Context =
  Origin :: address
  ctx_GasPrice :: int
  Coinbase :: address
  BlockNumber :: int

text \<open>
  \<open>vm.EVM\<close> embeds its \<open>Context\<close>. \<open>evm_StateDB\<close> is the state database handed to
  \<open>vm.NewEVM\<close>; the transition reads it once, in \<open>NewStateTransition\<close>, and threads the
  current state through \<open>st_state\<close> from then on.
\<close>

record EVM = Context +
  chainConfig :: ChainConfig
  evm_StateDB :: StateDB
  interpreter :: Executor

section \<open>StateTransition\<close>

text \<open>
  The fields of \<open>StateTransition\<close>, prefixed with \<open>st_\<close>. \<open>gp\<close> and \<open>state\<close> are
  pointers in the source: what the caller sees through them after a call is the value
  of \<open>st_gp\<close> and \<open>st_state\<close> in the transition returned.
\<close>

record StateTransition =
  st_gp :: GasPool
  st_msg :: Message
  st_gas :: u64
  st_gasPrice :: int
  st_initialGas :: u64
  st_value :: int
  st_data :: bytes
  st_state :: StateDB
  st_evm :: EVM

definition NewStateTransition :: "EVM \<Rightarrow> Message \<Rightarrow> GasPool \<Rightarrow> StateTransition" where
  "NewStateTransition evm msg gp =
     \<lparr>st_gp = gp, st_msg = msg, st_gas = 0, st_gasPrice = GasPrice msg, st_initialGas = 0,
      st_value = Value msg, st_data = Data msg, st_state = evm_StateDB evm, st_evm = evm\<rparr>"

definition to :: "StateTransition \<Rightarrow> address" where
  "to st = (case To (st_msg st) of None \<Rightarrow> 0 | Some a \<Rightarrow> a)"

definition useGas :: "StateTransition \<Rightarrow> u64 \<Rightarrow> error option \<times> StateTransition" where
  "useGas st amount =
     (if st_gas st < amount then (Some ErrOutOfGas, st)
      else (None, st\<lparr>st_gas := st_gas st - amount\<rparr>))"

definition buyGas :: "StateTransition \<Rightarrow> error option \<times> StateTransition" where
  "buyGas st =
     (let mgval = uint (Gas (st_msg st)) * st_gasPrice st
      in if GetBalance (st_state st) (From (st_msg st)) < mgval
         then (Some ErrInsufficientBalanceForGas, st)
         else (case SubGas (st_gp st) (Gas (st_msg st)) of
                 Inl err \<Rightarrow> (Some err, st)
               | Inr gp' \<Rightarrow>
                   (None, st\<lparr>st_gp := gp',
                              st_gas := st_gas st + Gas (st_msg st),
                              st_initialGas := Gas (st_msg st),
                              st_state := SubBalance (st_state st) (From (st_msg st)) mgval\<rparr>)))"

definition preCheck :: "StateTransition \<Rightarrow> error option \<times> StateTransition" where
  "preCheck st =
     (if CheckNonce (st_msg st) then
        (let nonce = GetNonce (st_state st) (From (st_msg st))
         in if nonce < Nonce (st_msg st) then (Some ErrNonceTooHigh, st)
            else if nonce > Nonce (st_msg st) then (Some ErrNonceTooLow, st)
            else buyGas st)
      else buyGas st)"

definition gasUsed :: "StateTransition \<Rightarrow> u64" where
  "gasUsed st = st_initialGas st - st_gas st"

definition refundGas :: "StateTransition \<Rightarrow> StateTransition" where
  "refundGas st =
     (let refund = gasUsed st div 2;
          refund = (if refund > GetRefund (st_state st) then GetRefund (st_state st) else refund);
          st1 = st\<lparr>st_gas := st_gas st + refund\<rparr>;
          remaining = uint (st_gas st1) * st_gasPrice st1;
          st2 = st1\<lparr>st_state := AddBalance (st_state st1) (From (st_msg st1)) remaining\<rparr>
      in st2\<lparr>st_gp := AddGas (st_gp st2) (st_gas st2)\<rparr>)"

text \<open>
  The dispatch of \<open>TransitionDb\<close> (the \<open>if contractCreation\<close> statement): the returned
  data, the execution error and the transition with the gas left over and the world
  state the Executor leaves.
\<close>

definition dispatch :: "StateTransition \<Rightarrow> bytes \<times> error option \<times> StateTransition" where
  "dispatch st =
     (let msg = st_msg st; sender = From msg; evm = st_evm st
      in if To msg = None then
           (case Create (interpreter evm) (st_state st) sender (st_data st) (st_gas st) (st_value st) of
              ((ret, _, gas', vmerr), state') \<Rightarrow>
                (ret, vmerr, st\<lparr>st_gas := gas', st_state := state'\<rparr>))
         else
           (let state1 = SetNonce (st_state st) (From msg) (GetNonce (st_state st) sender + 1)
            in case Call (interpreter evm) state1 sender (to st) (st_data st) (st_gas st) (st_value st) of
                 ((ret, gas', vmerr), state') \<Rightarrow>
                   (ret, vmerr, st\<lparr>st_gas := gas', st_state := state'\<rparr>)))"

text \<open>
  \<open>TransitionDb\<close> returns \<open>(ret, usedGas, failed, err)\<close>, and the transition as it
  leaves it.
\<close>

definition TransitionDb :: "Params \<Rightarrow> StateTransition
    \<Rightarrow> (bytes \<times> u64 \<times> bool \<times> error option) \<times> StateTransition" where
  "TransitionDb ps st =
     (case preCheck st of
        (Some err, st0) \<Rightarrow> (([], 0, False, Some err), st0)
      | (None, st0) \<Rightarrow>
          (let msg = st_msg st0;
               homestead = IsHomestead (chainConfig (st_evm st0)) (BlockNumber (st_evm st0));
               contractCreation = (To msg = None)
           in case IntrinsicGas ps (st_data st0) contractCreation homestead of
                Inl err \<Rightarrow> (([], 0, False, Some err), st0)
              | Inr gas \<Rightarrow>
                  (case useGas st0 gas of
                     (Some err, st1) \<Rightarrow> (([], 0, False, Some err), st1)
                   | (None, st1) \<Rightarrow>
                       (case dispatch st1 of
                          (ret, vmerr, st2) \<Rightarrow>
                            if vmerr = Some ErrInsufficientBalance
                            then (([], 0, False, vmerr), st2)
                            else
                              (let st3 = refundGas st2;
                                   st4 = st3\<lparr>st_state :=
                                           AddBalance (st_state st3) (Coinbase (st_evm st3))
                                             (uint (gasUsed st3) * st_gasPrice st3)\<rparr>
                               in ((ret, gasUsed st4, vmerr \<noteq> None, None), st4))))))"

definition ApplyMessage :: "Params \<Rightarrow> EVM \<Rightarrow> Message \<Rightarrow> GasPool
    \<Rightarrow> (bytes \<times> u64 \<times> bool \<times> error option) \<times> StateTransition" where
  "ApplyMessage ps evm msg gp = TransitionDb ps (NewStateTransition evm msg gp)"


section \<open>Transactions, receipts and blocks\<close>

text \<open>
  Modelled from the spec: package \<open>types\<close> is not among the sources. A transaction
  carries what its message needs and its hash; a receipt records the status, the
  cumulative gas used, the logs, their bloom filter and, for a contract creation, the
  contract address (the zero address when it is not set).
\<close>

record Transaction =
  tx_nonce :: u64
  tx_price :: int
  tx_gasLimit :: u64
  tx_recipient :: "address option"
  tx_amount :: int
  tx_payload :: bytes
  tx_hash :: hash

datatype ReceiptStatus = ReceiptStatusFailed | ReceiptStatusSuccessful

type_synonym bloom = "2048 word"

record Receipt =
  PostState :: bytes
  Status :: ReceiptStatus
  CumulativeGasUsed :: u64
  Bloom :: bloom
  Logs :: "Log list"
  TxHash :: hash
  ContractAddress :: address
  GasUsed :: u64

definition NewReceipt :: "bytes \<Rightarrow> bool \<Rightarrow> u64 \<Rightarrow> Receipt" where
  "NewReceipt root failed cumulativeGasUsed =
     \<lparr>PostState = root,
      Status = (if failed then ReceiptStatusFailed else ReceiptStatusSuccessful),
      CumulativeGasUsed = cumulativeGasUsed,
      Bloom = 0, Logs = [], TxHash = 0, ContractAddress = 0, GasUsed = 0\<rparr>"

record Header =
  hdr_Number :: int
  hdr_GasLimit :: u64

record Block =
  blk_header :: Header
  blk_transactions :: "Transaction list"
  blk_uncles :: "Header list"
  blk_hash :: hash

text \<open>
  The collaborators outside the two files, as parameters: the protocol constants, the
  interpreter that \<open>vm.NewEVM\<close> sets up for a context, the recovery of a
  transaction's sender by the signer of a block number, the state database's
  \<open>Finalise\<close> and \<open>IntermediateRoot\<close>, \<open>crypto.CreateAddress\<close>, \<open>types.CreateBloom\<close>,
  the consensus engine's \<open>Author\<close> and \<open>Finalize\<close>, and the DAO hard-fork migration.
\<close>

record Env =
  env_params :: Params
  env_interpreter :: "Context \<Rightarrow> ChainConfig \<Rightarrow> Executor"
  env_Sender :: "int \<Rightarrow> Transaction \<Rightarrow> error + address"
  env_Finalise :: "StateDB \<Rightarrow> bool \<Rightarrow> StateDB"
  env_IntermediateRoot :: "StateDB \<Rightarrow> bool \<Rightarrow> bytes \<times> StateDB"
  env_CreateAddress :: "address \<Rightarrow> u64 \<Rightarrow> address"
  env_CreateBloom :: "Receipt list \<Rightarrow> bloom"
  env_Author :: "Header \<Rightarrow> address"
  env_engine_Finalize :: "Header \<Rightarrow> StateDB \<Rightarrow> Transaction list \<Rightarrow> Header list
                            \<Rightarrow> Receipt list \<Rightarrow> StateDB"
  env_ApplyDAOHardFork :: "StateDB \<Rightarrow> StateDB"

text \<open>
  Modelled from the spec: \<open>AsMessage\<close> converts the transaction into a message,
  resolving the signer, which may fail; the message of a transaction asks for the
  nonce check.
\<close>

definition AsMessage :: "Env \<Rightarrow> Transaction \<Rightarrow> int \<Rightarrow> error + Message" where
  "AsMessage env tx number =
     (case env_Sender env number tx of
        Inl err \<Rightarrow> Inl err
      | Inr sender \<Rightarrow>
          Inr \<lparr>From = sender, To = tx_recipient tx, GasPrice = tx_price tx, Gas = tx_gasLimit tx,
               Value = tx_amount tx, Nonce = tx_nonce tx, CheckNonce = True,
               Data = tx_payload tx\<rparr>)"

text \<open>
  Modelled from the spec: \<open>NewEVMContext\<close> is not among the sources. The origin is
  the sender of the message, the fee recipient is the given author, or the block's
  author when none is given.
\<close>

definition NewEVMContext :: "Env \<Rightarrow> Message \<Rightarrow> Header \<Rightarrow> address option \<Rightarrow> Context" where
  "NewEVMContext env msg header author =
     \<lparr>Origin = From msg, ctx_GasPrice = GasPrice msg,
      Coinbase = (case author of None \<Rightarrow> env_Author env header | Some a \<Rightarrow> a),
      BlockNumber = hdr_Number header\<rparr>"

definition NewEVM :: "Env \<Rightarrow> Context \<Rightarrow> StateDB \<Rightarrow> ChainConfig \<Rightarrow> EVM" where
  "NewEVM env ctx statedb config =
     \<lparr>Origin = Origin ctx, ctx_GasPrice = ctx_GasPrice ctx, Coinbase = Coinbase ctx,
      BlockNumber = BlockNumber ctx, chainConfig = config, evm_StateDB = statedb,
      interpreter = env_interpreter env ctx config\<rparr>"

section \<open>ApplyTransaction and Process\<close>

text \<open>
  \<open>ApplyTransaction\<close> returns the error, or the receipt and the gas used, and what it
  leaves behind its three pointers: the gas pool, the state database and the running
  gas total. (The source binds the result of \<open>AsMessage\<close> to \<open>sg\<close> and reads \<open>msg\<close>
  from then on; the model reads the message \<open>AsMessage\<close> returns.)
\<close>

definition ApplyTransaction :: "Env \<Rightarrow> ChainConfig \<Rightarrow> address option \<Rightarrow> GasPool \<Rightarrow> StateDB
    \<Rightarrow> Header \<Rightarrow> Transaction \<Rightarrow> u64
    \<Rightarrow> (error + Receipt \<times> u64) \<times> GasPool \<times> StateDB \<times> u64" where
  "ApplyTransaction env config author gp statedb header tx usedGas =
     (case AsMessage env tx (hdr_Number header) of
        Inl err \<Rightarrow> (Inl err, gp, statedb, usedGas)
      | Inr msg \<Rightarrow>
          (let context = NewEVMContext env msg header author;
               vmenv = NewEVM env context statedb config
           in case ApplyMessage (env_params env) vmenv msg gp of
                ((_, gas, failed, Some err), st) \<Rightarrow> (Inl err, st_gp st, st_state st, usedGas)
              | ((_, gas, failed, None), st) \<Rightarrow>
                  (case (if IsByzantium config (hdr_Number header)
                         then ([], env_Finalise env (st_state st) True)
                         else env_IntermediateRoot env (st_state st)
                                (IsEIP158 config (hdr_Number header))) of
                     (root, statedb') \<Rightarrow>
                       (let usedGas' = usedGas + gas;
                            receipt = NewReceipt root failed usedGas';
                            receipt = receipt\<lparr>TxHash := tx_hash tx\<rparr>;
                            receipt = receipt\<lparr>GasUsed := gas\<rparr>;
                            receipt = (if To msg = None
                                       then receipt\<lparr>ContractAddress :=
                                              env_CreateAddress env (Origin vmenv) (tx_nonce tx)\<rparr>
                                       else receipt);
                            receipt = receipt\<lparr>Logs := GetLogs statedb' (tx_hash tx)\<rparr>;
                            receipt = receipt\<lparr>Bloom := env_CreateBloom env [receipt]\<rparr>
                        in (Inr (receipt, gas), st_gp st, statedb', usedGas')))))"

text \<open>
  The loop of \<open>Process\<close> over the block's transactions, from index \<open>i\<close>: the error that
  stops it, if any, and the receipts, the logs, the gas total, the gas pool and the
  state database as the loop leaves them.
\<close>

fun Process_loop :: "Env \<Rightarrow> ChainConfig \<Rightarrow> Header \<Rightarrow> hash \<Rightarrow> nat \<Rightarrow> Transaction list
    \<Rightarrow> Receipt list \<times> Log list \<times> u64 \<times> GasPool \<times> StateDB
    \<Rightarrow> error option \<times> Receipt list \<times> Log list \<times> u64 \<times> GasPool \<times> StateDB" where
  "Process_loop env config header bh i [] acc = (None, acc)"
| "Process_loop env config header bh i (tx # txs) (receipts, allLogs, usedGas, gp, statedb) =
     (case ApplyTransaction env config None gp (Prepare statedb (tx_hash tx) bh i)
             header tx usedGas of
        (Inl err, gp', statedb', usedGas') \<Rightarrow>
          (Some err, receipts, allLogs, usedGas', gp', statedb')
      | (Inr (receipt, _), gp', statedb', usedGas') \<Rightarrow>
          Process_loop env config header bh (Suc i) txs
            (receipts @ [receipt], allLogs @ Logs receipt, usedGas', gp', statedb'))"

text \<open>
  \<open>Process\<close> returns \<open>(receipts, allLogs, usedGas, err)\<close>, and the state database as it
  leaves it.
\<close>

definition Process :: "Env \<Rightarrow> ChainConfig \<Rightarrow> Block \<Rightarrow> StateDB
    \<Rightarrow> (Receipt list \<times> Log list \<times> u64 \<times> error option) \<times> StateDB" where
  "Process env config block statedb =
     (let header = blk_header block;
          gp = AddGas 0 (hdr_GasLimit header);
          statedb1 = (if DAOForkSupport config \<and> DAOForkBlock config = Some (hdr_Number header)
                      then env_ApplyDAOHardFork env statedb else statedb)
      in case Process_loop env config header (blk_hash block) 0 (blk_transactions block)
                ([], [], 0, gp, statedb1) of
           (Some err, _, _, _, _, statedb') \<Rightarrow> (([], [], 0, Some err), statedb')
         | (None, receipts, allLogs, usedGas, _, statedb') \<Rightarrow>
             ((receipts, allLogs, usedGas, None),
              env_engine_Finalize env header statedb' (blk_transactions block)
                (blk_uncles block) receipts))"


section \<open>Reference quantities and concrete inputs\<close>

text \<open>
  The intrinsic gas as the specification words it, over the natural numbers: the base
  cost, plus the non-zero-byte rate for every non-zero byte and the zero-byte rate for
  every zero byte. It is compared below with what \<open>IntrinsicGas\<close> computes in 64 bits.
\<close>

definition intrinsic_total :: "Params \<Rightarrow> bytes \<Rightarrow> bool \<Rightarrow> bool \<Rightarrow> nat" where
  "intrinsic_total ps data contractCreation homestead =
     unat (if contractCreation \<and> homestead then TxGasContractCreation ps else TxGas ps)
     + length (filter (\<lambda>b. b \<noteq> 0) data) * unat (TxDataNonZeroGas ps)
     + length (filter (\<lambda>b. b = 0) data) * unat (TxDataZeroGas ps)"

text \<open>The call of \<open>IntrinsicGas\<close> that \<open>TransitionDb\<close> makes.\<close>

abbreviation st_intrinsic :: "Params \<Rightarrow> StateTransition \<Rightarrow> error + u64" where
  "st_intrinsic ps st \<equiv>
     IntrinsicGas ps (st_data st) (To (st_msg st) = None)
       (IsHomestead (chainConfig (st_evm st)) (BlockNumber (st_evm st)))"

text \<open>
  Inputs on which the theorems are instantiated: the usual constants (21000, 53000, 68
  and 4, as the comments of \<open>IntrinsicGas\<close> give them) and a set with a non-zero-byte
  rate of \<open>2 ^ 63\<close>, under which two non-zero bytes overflow; an account 1 with balance
  1000000 and nonce 5; an Executor that uses a fixed amount of gas, returns a fixed
  error and leaves a fixed refund counter.
\<close>

definition example_params :: Params where
  "example_params = \<lparr>TxGas = 21000, TxGasContractCreation = 53000,
                       TxDataNonZeroGas = 68, TxDataZeroGas = 4\<rparr>"

definition steep_params :: Params where
  "steep_params = \<lparr>TxGas = 21000, TxGasContractCreation = 53000,
                     TxDataNonZeroGas = 9223372036854775808, TxDataZeroGas = 4\<rparr>"

definition example_state :: StateDB where
  "example_state =
     \<lparr>db_balance = (\<lambda>a. if a = 1 then 1000000 else 0),
      db_nonce = (\<lambda>a. if a = 1 then 5 else 0),
      db_refund = 0, db_logs = (\<lambda>h. []), db_thash = 0, db_bhash = 0, db_txIndex = 0\<rparr>"

definition example_config :: ChainConfig where
  "example_config =
     \<lparr>IsHomestead = (\<lambda>n. True), IsByzantium = (\<lambda>n. True), IsEIP158 = (\<lambda>n. True),
      DAOForkSupport = False, DAOForkBlock = None\<rparr>"

definition stub_executor :: "u64 \<Rightarrow> error option \<Rightarrow> u64 \<Rightarrow> Executor" where
  "stub_executor used err r =
     \<lparr>Create = (\<lambda>s caller code gas val. (([], 0, gas - used, err), s\<lparr>db_refund := r\<rparr>)),
      Call = (\<lambda>s caller addr input gas val. (([], gas - used, err), s\<lparr>db_refund := r\<rparr>))\<rparr>"

definition example_evm :: "Executor \<Rightarrow> EVM" where
  "example_evm ex =
     \<lparr>Origin = 1, ctx_GasPrice = 2, Coinbase = 2, BlockNumber = 0,
      chainConfig = example_config, evm_StateDB = example_state, interpreter = ex\<rparr>"

definition example_msg :: "address option \<Rightarrow> u64 \<Rightarrow> u64 \<Rightarrow> bytes \<Rightarrow> Message" where
  "example_msg recipient gasLimit nonce payload =
     \<lparr>From = 1, To = recipient, GasPrice = 2, Gas = gasLimit, Value = 0, Nonce = nonce,
      CheckNonce = True, Data = payload\<rparr>"

definition example_st :: "Executor \<Rightarrow> address option \<Rightarrow> u64 \<Rightarrow> u64 \<Rightarrow> bytes
    \<Rightarrow> StateTransition" where
  "example_st ex recipient gasLimit nonce payload =
     NewStateTransition (example_evm ex) (example_msg recipient gasLimit nonce payload) 1000000"

text \<open>The components of what \<open>TransitionDb\<close> returns.\<close>

definition result_usedGas :: "bytes \<times> u64 \<times> bool \<times> error option \<Rightarrow> u64" where
  "result_usedGas r = fst (snd r)"

definition result_failed :: "bytes \<times> u64 \<times> bool \<times> error option \<Rightarrow> bool" where
  "result_failed r = fst (snd (snd r))"

definition result_err :: "bytes \<times> u64 \<times> bool \<times> error option \<Rightarrow> error option" where
  "result_err r = snd (snd (snd r))"

text \<open>
  The outcome of \<open>ApplyTransaction\<close>: its receipt, when it returns one, and its error,
  when it returns one.
\<close>

definition applied_receipt :: "(error + Receipt \<times> u64) \<times> GasPool \<times> StateDB \<times> u64
    \<Rightarrow> Receipt option" where
  "applied_receipt r = (case fst r of Inl err \<Rightarrow> None | Inr (receipt, gas) \<Rightarrow> Some receipt)"

definition applied_err :: "(error + Receipt \<times> u64) \<times> GasPool \<times> StateDB \<times> u64
    \<Rightarrow> error option" where
  "applied_err r = (case fst r of Inl err \<Rightarrow> Some err | Inr (receipt, gas) \<Rightarrow> None)"

text \<open>
  A chain on which every transaction is signed by account 1 and the author of every
  block is account 2, with an Executor given; transactions with gas price 2 whose hash
  is their nonce; a block of gas limit 30000.
\<close>

definition example_env :: "Executor \<Rightarrow> Env" where
  "example_env ex =
     \<lparr>env_params = example_params,
      env_interpreter = (\<lambda>ctx cfg. ex),
      env_Sender = (\<lambda>n tx. Inr 1),
      env_Finalise = (\<lambda>s deleteEmpty. s),
      env_IntermediateRoot = (\<lambda>s deleteEmpty. ([], s)),
      env_CreateAddress = (\<lambda>a n. a + ucast n + 1000),
      env_CreateBloom = (\<lambda>rs. 0),
      env_Author = (\<lambda>h. 2),
      env_engine_Finalize = (\<lambda>h s txs uncles rs. s),
      env_ApplyDAOHardFork = (\<lambda>s. s)\<rparr>"

definition example_tx :: "address option \<Rightarrow> u64 \<Rightarrow> u64 \<Rightarrow> Transaction" where
  "example_tx recipient gasLimit nonce =
     \<lparr>tx_nonce = nonce, tx_price = 2, tx_gasLimit = gasLimit, tx_recipient = recipient,
      tx_amount = 0, tx_payload = [], tx_hash = ucast nonce\<rparr>"

definition example_header :: Header where
  "example_header = \<lparr>hdr_Number = 0, hdr_GasLimit = 30000\<rparr>"

definition example_block :: "Transaction list \<Rightarrow> Block" where
  "example_block txs =
     \<lparr>blk_header = example_header, blk_transactions = txs, blk_uncles = [], blk_hash = 7\<rparr>"

section \<open>Auxiliary facts\<close>

lemmas ex_defs = example_params_def steep_params_def example_state_def example_config_def
  stub_executor_def example_evm_def example_msg_def example_st_def NewStateTransition_def

subsection \<open>64-bit arithmetic\<close>

lemma count_nz_eq: "count_nz data nz = nz + of_nat (length (filter (\<lambda>b. b \<noteq> 0) data))"
  by (induction data arbitrary: nz) (simp_all add: add.assoc)

lemma unat_MaxUint64: "unat MaxUint64 = 18446744073709551615"
  unfolding MaxUint64_def by (simp add: unsigned_minus_1_eq_mask mask_eq_exp_minus_1)

lemma unat_u64_le: "unat (g :: u64) \<le> 18446744073709551615"
  using unsigned_less [of g, where 'a = nat] by simp

lemma unat_MaxUint64_minus: "unat (MaxUint64 - g) = 18446744073709551615 - unat g"
proof -
  have "g \<le> MaxUint64" by (simp add: MaxUint64_def)
  then show ?thesis by (simp add: unat_sub unat_MaxUint64)
qed

text \<open>The guard of the source fails exactly when the next term does not fit.\<close>

lemma check_iff:
  fixes g r n :: u64
  assumes "r \<noteq> 0"
  shows "((MaxUint64 - g) div r < n) \<longleftrightarrow> (18446744073709551615 < unat g + unat n * unat r)"
proof -
  have r: "0 < unat r" using assms by (simp add: unat_gt_0)
  have "((MaxUint64 - g) div r < n) \<longleftrightarrow> (18446744073709551615 - unat g) div unat r < unat n"
    by (simp add: word_less_nat_alt unat_div unat_MaxUint64_minus)
  also have "\<dots> \<longleftrightarrow> 18446744073709551615 - unat g < unat n * unat r"
    using r by (simp add: div_less_iff_less_mult)
  also have "\<dots> \<longleftrightarrow> 18446744073709551615 < unat g + unat n * unat r"
    using unat_u64_le [of g] by linarith
  finally show ?thesis .
qed

lemma no_wrap:
  fixes g r n :: u64
  assumes "unat g + unat n * unat r \<le> 18446744073709551615"
  shows "unat (g + n * r) = unat g + unat n * unat r"
proof -
  have m: "unat n * unat r < 2 ^ 64" using assms by simp
  have 1: "unat (n * r) = unat n * unat r"
    using m by (simp add: unat_mult_lem [THEN iffD1])
  have "unat g + unat (n * r) < 2 ^ 64" using assms 1 by simp
  then have "unat (g + n * r) = unat g + unat (n * r)"
    by (simp add: unat_add_lem [THEN iffD1])
  with 1 show ?thesis by simp
qed

lemma length_split_zero:
  "length (data :: bytes) =
     length (filter (\<lambda>b. b \<noteq> 0) data) + length (filter (\<lambda>b. b = 0) data)"
  by (induction data) simp_all

lemma unat_of_nat_u64: "n < 2 ^ 64 \<Longrightarrow> unat (of_nat n :: u64) = n"
  by (simp add: unat_of_nat)

subsection \<open>IntrinsicGas\<close>

lemma IntrinsicGas_checks:
  fixes ps data cc hs
  defines "base \<equiv> (if cc \<and> hs then TxGasContractCreation ps else TxGas ps)"
  defines "nz \<equiv> (of_nat (length (filter (\<lambda>b. b \<noteq> 0) data)) :: u64)"
  defines "z \<equiv> (of_nat (length (filter (\<lambda>b. b = 0) data)) :: u64)"
  shows "IntrinsicGas ps data cc hs =
     (if (MaxUint64 - base) div TxDataNonZeroGas ps < nz then Inl ErrOutOfGas
      else if (MaxUint64 - (base + nz * TxDataNonZeroGas ps)) div TxDataZeroGas ps < z
           then Inl ErrOutOfGas
      else Inr (base + nz * TxDataNonZeroGas ps + z * TxDataZeroGas ps))"
proof (cases "data = []")
  case True
  then show ?thesis
    by (simp add: IntrinsicGas_def base_def nz_def z_def)
next
  case False
  have "(of_nat (length data) :: u64) = nz + z"
    unfolding nz_def z_def by (subst length_split_zero) simp
  then have z: "of_nat (length data) - nz = z" by simp
  have c: "count_nz data 0 = nz" by (simp add: count_nz_eq nz_def)
  show ?thesis
    using False by (simp add: IntrinsicGas_def Let_def c z base_def [symmetric])
qed

lemma IntrinsicGas_Inl: "IntrinsicGas ps data cc hs = Inl e \<Longrightarrow> e = ErrOutOfGas"
  by (auto simp: IntrinsicGas_def Let_def split: if_splits)

subsection \<open>The steps of the transition\<close>

lemma buyGas_cases:
  "buyGas st =
     (if GetBalance (st_state st) (From (st_msg st)) < uint (Gas (st_msg st)) * st_gasPrice st
      then (Some ErrInsufficientBalanceForGas, st)
      else if st_gp st < Gas (st_msg st) then (Some ErrGasLimitReached, st)
      else (None, st\<lparr>st_gp := st_gp st - Gas (st_msg st),
                        st_gas := st_gas st + Gas (st_msg st),
                        st_initialGas := Gas (st_msg st),
                        st_state := SubBalance (st_state st) (From (st_msg st))
                                      (uint (Gas (st_msg st)) * st_gasPrice st)\<rparr>))"
  by (simp add: buyGas_def SubGas_def Let_def)

lemma buyGas_Some:
  "buyGas st = (Some e, st')
     \<Longrightarrow> st' = st \<and> (e = ErrInsufficientBalanceForGas \<or> e = ErrGasLimitReached)"
  by (auto simp: buyGas_cases split: if_splits)

lemma buyGas_None:
  assumes "buyGas st = (None, st')"
  shows "st' = st\<lparr>st_gp := st_gp st - Gas (st_msg st),
                        st_gas := st_gas st + Gas (st_msg st),
                        st_initialGas := Gas (st_msg st),
                        st_state := SubBalance (st_state st) (From (st_msg st))
                                      (uint (Gas (st_msg st)) * st_gasPrice st)\<rparr>"
    and "Gas (st_msg st) \<le> st_gp st"
    and "uint (Gas (st_msg st)) * st_gasPrice st \<le> GetBalance (st_state st) (From (st_msg st))"
  using assms by (auto simp: buyGas_cases split: if_splits)

lemma preCheck_None:
  assumes "preCheck st = (None, st')"
  shows "buyGas st = (None, st')"
    and "CheckNonce (st_msg st)
           \<Longrightarrow> GetNonce (st_state st) (From (st_msg st)) = Nonce (st_msg st)"
  using assms by (auto simp: preCheck_def Let_def split: if_splits)

lemma useGas_cases:
  "useGas st amount = (Some e, st') \<Longrightarrow> e = ErrOutOfGas \<and> st' = st \<and> st_gas st < amount"
  "useGas st amount = (None, st')
     \<Longrightarrow> st' = st\<lparr>st_gas := st_gas st - amount\<rparr> \<and> amount \<le> st_gas st"
  by (auto simp: useGas_def split: if_splits)

lemma preCheck_frame:
  assumes "preCheck st = (None, st0)"
  shows "st_msg st0 = st_msg st" "st_data st0 = st_data st" "st_evm st0 = st_evm st"
    "st_gasPrice st0 = st_gasPrice st" "st_value st0 = st_value st"
    "st_gp st0 = st_gp st - Gas (st_msg st)" "st_initialGas st0 = Gas (st_msg st)"
    "st_gas st0 = st_gas st + Gas (st_msg st)"
    "st_state st0 = SubBalance (st_state st) (From (st_msg st))
                      (uint (Gas (st_msg st)) * st_gasPrice st)"
  using buyGas_None(1) [OF preCheck_None(1) [OF assms]] by simp_all

lemma dispatch_frame:
  assumes "dispatch st = (ret, vmerr, st2)"
  shows "st_gp st2 = st_gp st" "st_initialGas st2 = st_initialGas st" "st_msg st2 = st_msg st"
    "st_gasPrice st2 = st_gasPrice st" "st_evm st2 = st_evm st" "st_data st2 = st_data st"
    "st_value st2 = st_value st"
  using assms by (auto simp: dispatch_def Let_def split: if_splits prod.splits)

lemma refundGas_eq:
  "refundGas st =
     st\<lparr>st_gas := st_gas st + min (gasUsed st div 2) (GetRefund (st_state st)),
        st_state := AddBalance (st_state st) (From (st_msg st))
                      (uint (st_gas st + min (gasUsed st div 2) (GetRefund (st_state st)))
                         * st_gasPrice st),
        st_gp := AddGas (st_gp st) (st_gas st + min (gasUsed st div 2) (GetRefund (st_state st)))\<rparr>"
  by (simp add: refundGas_def Let_def min_def not_less)

lemma TransitionDb_dispatched:
  assumes "preCheck st = (None, st0)"
    and "st_intrinsic ps st = Inr ig"
    and "useGas st0 ig = (None, st1)"
    and "dispatch st1 = (ret, vmerr, st2)"
  shows "TransitionDb ps st =
     (if vmerr = Some ErrInsufficientBalance then (([], 0, False, vmerr), st2)
      else (let st3 = refundGas st2;
                st4 = st3\<lparr>st_state := AddBalance (st_state st3) (Coinbase (st_evm st3))
                                          (uint (gasUsed st3) * st_gasPrice st3)\<rparr>
            in ((ret, gasUsed st4, vmerr \<noteq> None, None), st4)))"
  using assms by (simp add: TransitionDb_def preCheck_frame [OF assms(1)])

lemma TransitionDb_settled:
  fixes ps st st0 ig st1 ret vmerr st2
  defines "refundv \<equiv> min ((st_initialGas st2 - st_gas st2) div 2) (GetRefund (st_state st2))"
  defines "remaining \<equiv> st_gas st2 + refundv"
  defines "used \<equiv> st_initialGas st2 - remaining"
  assumes pre: "preCheck st = (None, st0)"
    and ig: "st_intrinsic ps st = Inr ig"
    and use: "useGas st0 ig = (None, st1)"
    and disp: "dispatch st1 = (ret, vmerr, st2)"
    and nohard: "vmerr \<noteq> Some ErrInsufficientBalance"
  shows "TransitionDb ps st =
           ((ret, used, vmerr \<noteq> None, None),
            st2\<lparr>st_gas := remaining,
                st_gp := AddGas (st_gp st2) remaining,
                st_state := AddBalance
                              (AddBalance (st_state st2) (From (st_msg st))
                                 (uint remaining * st_gasPrice st))
                              (Coinbase (st_evm st)) (uint used * st_gasPrice st)\<rparr>)"
proof -
  note f0 = preCheck_frame [OF pre]
  have f1: "st_msg st1 = st_msg st" "st_gasPrice st1 = st_gasPrice st" "st_evm st1 = st_evm st"
    using useGas_cases(2) [OF use] f0 by simp_all
  note f2 = dispatch_frame [OF disp]
  have "TransitionDb ps st =
      (let st3 = refundGas st2;
           st4 = st3\<lparr>st_state := AddBalance (st_state st3) (Coinbase (st_evm st3))
                                     (uint (gasUsed st3) * st_gasPrice st3)\<rparr>
       in ((ret, gasUsed st4, vmerr \<noteq> None, None), st4))"
    using TransitionDb_dispatched [OF pre ig use disp] nohard by simp
  then show ?thesis
    by (simp add: Let_def refundGas_eq gasUsed_def f1 f2 refundv_def remaining_def used_def)
qed

subsection \<open>ApplyTransaction and the loop of Process\<close>

lemma ApplyTransaction_settled:
  assumes msg: "AsMessage env tx (hdr_Number header) = Inr msg"
    and res: "TransitionDb (env_params env)
                (NewStateTransition
                   (NewEVM env (NewEVMContext env msg header author) statedb config) msg gp)
              = ((ret, gas, failed, None), st')"
  shows "\<exists>receipt.
           ApplyTransaction env config author gp statedb header tx usedGas =
             (Inr (receipt, gas), st_gp st',
              (if IsByzantium config (hdr_Number header)
               then env_Finalise env (st_state st') True
               else snd (env_IntermediateRoot env (st_state st')
                           (IsEIP158 config (hdr_Number header)))),
              usedGas + gas)
         \<and> Status receipt = (if failed then ReceiptStatusFailed else ReceiptStatusSuccessful)
         \<and> GasUsed receipt = gas
         \<and> CumulativeGasUsed receipt = usedGas + gas
         \<and> TxHash receipt = tx_hash tx"
  by (auto simp: ApplyTransaction_def msg ApplyMessage_def res Let_def NewReceipt_def
      split: prod.splits)

lemma Process_loop_Cons_ok:
  assumes "ApplyTransaction env config None gp (Prepare statedb (tx_hash tx) bh i) header tx usedGas
             = (Inr (receipt, g), gp', statedb', usedGas')"
  shows "Process_loop env config header bh i (tx # txs) (receipts, allLogs, usedGas, gp, statedb) =
           Process_loop env config header bh (Suc i) txs
             (receipts @ [receipt], allLogs @ Logs receipt, usedGas', gp', statedb')"
  using assms by simp

lemma Process_loop_Cons_err:
  assumes "ApplyTransaction env config None gp (Prepare statedb (tx_hash tx) bh i) header tx usedGas
             = (Inl err, gp', statedb', usedGas')"
  shows "Process_loop env config header bh i (tx # txs) (receipts, allLogs, usedGas, gp, statedb) =
           (Some err, receipts, allLogs, usedGas', gp', statedb')"
  using assms by simp

text \<open>The loop runs over the list from left to right: a prefix first, the rest after it.\<close>

lemma Process_loop_append:
  "Process_loop env config header bh i (xs @ ys) acc =
     (case Process_loop env config header bh i xs acc of
        (Some err, acc') \<Rightarrow> (Some err, acc')
      | (None, acc') \<Rightarrow> Process_loop env config header bh (i + length xs) ys acc')"
proof (induction xs arbitrary: i acc)
  case Nil
  then show ?case by simp
next
  case (Cons tx xs)
  obtain receipts allLogs usedGas gp statedb
    where acc: "acc = (receipts, allLogs, usedGas, gp, statedb)"
    by (cases acc) auto
  show ?case
    unfolding acc
    by (cases "ApplyTransaction env config None gp (Prepare statedb (tx_hash tx) bh i)
                 header tx usedGas")
      (auto simp: Cons.IH split: sum.splits prod.splits option.splits)
qed

subsection \<open>The concrete inputs, field by field\<close>

lemma example_st_sel:
  "st_gp (example_st ex recipient gasLimit nonce payload) = 1000000"
  "st_msg (example_st ex recipient gasLimit nonce payload) =
     example_msg recipient gasLimit nonce payload"
  "st_gas (example_st ex recipient gasLimit nonce payload) = 0"
  "st_gasPrice (example_st ex recipient gasLimit nonce payload) = 2"
  "st_initialGas (example_st ex recipient gasLimit nonce payload) = 0"
  "st_value (example_st ex recipient gasLimit nonce payload) = 0"
  "st_data (example_st ex recipient gasLimit nonce payload) = payload"
  "st_state (example_st ex recipient gasLimit nonce payload) = example_state"
  "st_evm (example_st ex recipient gasLimit nonce payload) = example_evm ex"
  by (simp_all add: example_st_def NewStateTransition_def example_msg_def example_evm_def)

lemma example_msg_sel:
  "From (example_msg recipient gasLimit nonce payload) = 1"
  "To (example_msg recipient gasLimit nonce payload) = recipient"
  "GasPrice (example_msg recipient gasLimit nonce payload) = 2"
  "Gas (example_msg recipient gasLimit nonce payload) = gasLimit"
  "Value (example_msg recipient gasLimit nonce payload) = 0"
  "Nonce (example_msg recipient gasLimit nonce payload) = nonce"
  "CheckNonce (example_msg recipient gasLimit nonce payload) = True"
  "Data (example_msg recipient gasLimit nonce payload) = payload"
  by (simp_all add: example_msg_def)

lemma example_evm_sel:
  "Origin (example_evm ex) = 1" "Coinbase (example_evm ex) = 2"
  "BlockNumber (example_evm ex) = 0" "chainConfig (example_evm ex) = example_config"
  "evm_StateDB (example_evm ex) = example_state" "interpreter (example_evm ex) = ex"
  by (simp_all add: example_evm_def)

lemma example_state_sel:
  "db_balance example_state a = (if a = 1 then 1000000 else 0)"
  "db_nonce example_state a = (if a = 1 then 5 else 0)"
  "db_refund example_state = 0"
  "db_logs example_state h = []"
  by (simp_all add: example_state_def)

lemma example_config_sel:
  "IsHomestead example_config n = True" "IsByzantium example_config n = True"
  "IsEIP158 example_config n = True" "DAOForkSupport example_config = False"
  "DAOForkBlock example_config = None"
  by (simp_all add: example_config_def)

lemma stub_executor_sel:
  "Create (stub_executor used err r) s caller code gas val =
     (([], 0, gas - used, err), s\<lparr>db_refund := r\<rparr>)"
  "Call (stub_executor used err r) s caller addr input gas val =
     (([], gas - used, err), s\<lparr>db_refund := r\<rparr>)"
  by (simp_all add: stub_executor_def)

lemmas ex_sel = example_st_sel example_msg_sel example_evm_sel example_state_sel
  example_config_sel stub_executor_sel

lemmas db_defs = GetBalance_def AddBalance_def SubBalance_def GetNonce_def SetNonce_def
  GetRefund_def

section \<open>Properties of the state transition and of block processing\<close>

text \<open>
  \<^bold>\<open>C5.\<close> For every payload (of a length that fits 64 bits, as a Go slice does) and
  non-zero per-byte rates, \<open>IntrinsicGas\<close> returns \<open>OutOfGas\<close> exactly when one of its
  two guards fails: the guard \<open>(MaxUint64 - gas) / rate < count\<close> taken before the
  non-zero-byte term is added, or the same guard taken before the zero-byte term is
  added. One of the guards fails exactly when the total over the natural numbers
  exceeds \<open>MaxUint64\<close>, and the first one exactly when the base cost plus the
  non-zero-byte term does. Otherwise the result is that total, neither wrapped nor
  truncated.
\<close>

theorem IntrinsicGas_overflow_checked:
  fixes ps data cc hs
  defines "base \<equiv> (if cc \<and> hs then TxGasContractCreation ps else TxGas ps)"
  defines "nz \<equiv> (of_nat (length (filter (\<lambda>b. b \<noteq> 0) data)) :: u64)"
  defines "z \<equiv> (of_nat (length (filter (\<lambda>b. b = 0) data)) :: u64)"
  defines "first \<equiv> (MaxUint64 - base) div TxDataNonZeroGas ps < nz"
  defines "second \<equiv> (MaxUint64 - (base + nz * TxDataNonZeroGas ps)) div TxDataZeroGas ps < z"
  assumes rates: "TxDataNonZeroGas ps \<noteq> 0" "TxDataZeroGas ps \<noteq> 0"
    and len: "length data < 2 ^ 64"
  shows "IntrinsicGas ps data cc hs =
           (if first \<or> second then Inl ErrOutOfGas
            else Inr (of_nat (intrinsic_total ps data cc hs)))
       \<and> (first \<or> second) = (unat MaxUint64 < intrinsic_total ps data cc hs)
       \<and> first = (unat MaxUint64 <
                    unat base + length (filter (\<lambda>b. b \<noteq> 0) data) * unat (TxDataNonZeroGas ps))"
proof -
  let ?nzc = "length (filter (\<lambda>b. b \<noteq> 0) data)"
  let ?zc = "length (filter (\<lambda>b. b = 0) data)"
  let ?nzr = "TxDataNonZeroGas ps" and ?zr = "TxDataZeroGas ps"
  let ?total = "intrinsic_total ps data cc hs"
  have "?nzc \<le> length data" "?zc \<le> length data" by simp_all
  with len have "?nzc < 2 ^ 64" "?zc < 2 ^ 64" by linarith+
  then have un: "unat nz = ?nzc" "unat z = ?zc"
    unfolding nz_def z_def by (simp_all add: unat_of_nat_u64)
  have tot: "?total = unat base + unat nz * unat ?nzr + unat z * unat ?zr"
    by (simp add: intrinsic_total_def un base_def)
  have first: "first \<longleftrightarrow> 18446744073709551615 < unat base + unat nz * unat ?nzr"
    unfolding first_def by (rule check_iff [OF rates(1)])
  have eq: "IntrinsicGas ps data cc hs =
     (if first then Inl ErrOutOfGas
      else if second then Inl ErrOutOfGas
      else Inr (base + nz * ?nzr + z * ?zr))"
    unfolding base_def nz_def z_def first_def second_def by (rule IntrinsicGas_checks)
  have c: "first = (unat MaxUint64 < unat base + ?nzc * unat ?nzr)"
    using first by (simp add: un unat_MaxUint64)
  have ab: "IntrinsicGas ps data cc hs =
           (if first \<or> second then Inl ErrOutOfGas else Inr (of_nat ?total))
       \<and> (first \<or> second) = (unat MaxUint64 < ?total)"
  proof (cases first)
    case True
    then have "18446744073709551615 < ?total"
      using first tot by linarith
    with True eq show ?thesis by (simp add: unat_MaxUint64)
  next
    case False
    then have fit: "unat base + unat nz * unat ?nzr \<le> 18446744073709551615"
      using first by linarith
    then have g1: "unat (base + nz * ?nzr) = unat base + unat nz * unat ?nzr"
      by (rule no_wrap)
    have second: "second \<longleftrightarrow> 18446744073709551615 < ?total"
      unfolding second_def by (simp add: check_iff [OF rates(2)] g1 tot)
    show ?thesis
    proof (cases second)
      case True
      with second eq False show ?thesis
        by (simp add: unat_MaxUint64)
    next
      case F2: False
      then have le: "?total \<le> 18446744073709551615"
        using second by linarith
      then have "unat (base + nz * ?nzr) + unat z * unat ?zr \<le> 18446744073709551615"
        by (simp add: g1 tot)
      then have "unat (base + nz * ?nzr + z * ?zr) = unat (base + nz * ?nzr) + unat z * unat ?zr"
        by (rule no_wrap)
      then have "unat (base + nz * ?nzr + z * ?zr) = ?total"
        by (simp add: g1 tot)
      then have "of_nat ?total = base + nz * ?nzr + z * ?zr"
        using of_nat_unat [of "base + nz * ?nzr + z * ?zr", where 'a = "64 word"] by simp
      with F2 False eq le show ?thesis by (simp add: unat_MaxUint64)
    qed
  qed
  from ab c show ?thesis by blast
qed

theorem IntrinsicGas_overflow_checked_witness:
  "IntrinsicGas example_params [1, 0, 7] False True = Inr 21140
   \<and> IntrinsicGas steep_params [1, 1] True True = Inl ErrOutOfGas"
  using IntrinsicGas_overflow_checked [of example_params "[1, 0, 7]" False True]
    IntrinsicGas_overflow_checked [of steep_params "[1, 1]" True True]
  by (simp add: ex_defs intrinsic_total_def unat_MaxUint64)

text \<open>
  \<^bold>\<open>C3.\<close> When the message asks for the nonce check, \<open>preCheck\<close> fails with
  \<open>NonceTooLow\<close> if the account's nonce is greater than the message's and with
  \<open>NonceTooHigh\<close> if it is smaller, in both cases leaving the transition as it was (no
  gas bought, no state changed); otherwise it goes on to \<open>buyGas\<close>. So it succeeds only
  if the two nonces are equal.
\<close>

theorem preCheck_nonce:
  assumes "CheckNonce (st_msg st)"
  shows "preCheck st =
           (if Nonce (st_msg st) < GetNonce (st_state st) (From (st_msg st))
              then (Some ErrNonceTooLow, st)
            else if GetNonce (st_state st) (From (st_msg st)) < Nonce (st_msg st)
              then (Some ErrNonceTooHigh, st)
            else buyGas st)
       \<and> ((fst (preCheck st) = None) =
            (GetNonce (st_state st) (From (st_msg st)) = Nonce (st_msg st)
             \<and> fst (buyGas st) = None))"
  using assms by (auto simp: preCheck_def Let_def)

theorem preCheck_nonce_witness:
  "preCheck (example_st (stub_executor 0 None 0) (Some 3) 100000 4 []) =
     (Some ErrNonceTooLow, example_st (stub_executor 0 None 0) (Some 3) 100000 4 [])
   \<and> preCheck (example_st (stub_executor 0 None 0) (Some 3) 100000 6 []) =
     (Some ErrNonceTooHigh, example_st (stub_executor 0 None 0) (Some 3) 100000 6 [])
   \<and> fst (preCheck (example_st (stub_executor 0 None 0) (Some 3) 100000 5 [])) = None"
  using preCheck_nonce [of "example_st (stub_executor 0 None 0) (Some 3) 100000 4 []"]
    preCheck_nonce [of "example_st (stub_executor 0 None 0) (Some 3) 100000 6 []"]
    preCheck_nonce [of "example_st (stub_executor 0 None 0) (Some 3) 100000 5 []"]
  by (simp add: ex_defs GetNonce_def buyGas_cases GetBalance_def)

text \<open>
  \<^bold>\<open>C2.\<close> On a fresh transition, \<open>buyGas\<close> fails with \<open>InsufficientBalanceForGas\<close> when
  the sender's balance is below \<open>cost = gasLimit * gasPrice\<close>; whenever it fails, with
  that error or with \<open>GasLimitReached\<close>, it leaves the transition as it was (no debit,
  nothing taken from the pool); when it succeeds, the gas counter and \<open>initialGas\<close> are
  the gas limit, the sender's balance is debited by \<open>cost\<close> and the pool by the gas
  limit.
\<close>

theorem buyGas_purchase:
  fixes evm msg gp
  defines "st \<equiv> NewStateTransition evm msg gp"
  defines "cost \<equiv> uint (Gas msg) * GasPrice msg"
  shows "(GetBalance (evm_StateDB evm) (From msg) < cost
            \<longrightarrow> buyGas st = (Some ErrInsufficientBalanceForGas, st))
       \<and> (\<forall>e st'. buyGas st = (Some e, st')
            \<longrightarrow> st' = st \<and> (e = ErrInsufficientBalanceForGas \<or> e = ErrGasLimitReached))
       \<and> (\<forall>st'. buyGas st = (None, st')
            \<longrightarrow> st_gas st' = Gas msg \<and> st_initialGas st' = Gas msg
              \<and> st_state st' = SubBalance (evm_StateDB evm) (From msg) cost
              \<and> GetBalance (st_state st') (From msg) = GetBalance (evm_StateDB evm) (From msg) - cost
              \<and> st_gp st' = gp - Gas msg
              \<and> Gas msg \<le> gp \<and> cost \<le> GetBalance (evm_StateDB evm) (From msg))"
proof (intro conjI allI impI)
  assume "GetBalance (evm_StateDB evm) (From msg) < cost"
  then show "buyGas st = (Some ErrInsufficientBalanceForGas, st)"
    by (simp add: buyGas_cases st_def cost_def NewStateTransition_def)
next
  fix e st' assume "buyGas st = (Some e, st')"
  then show "st' = st" "e = ErrInsufficientBalanceForGas \<or> e = ErrGasLimitReached"
    using buyGas_Some by blast+
next
  fix st' assume a: "buyGas st = (None, st')"
  note b = buyGas_None [OF a]
  show "st_gas st' = Gas msg" "st_initialGas st' = Gas msg" "st_gp st' = gp - Gas msg"
    "st_state st' = SubBalance (evm_StateDB evm) (From msg) cost"
    by (simp_all add: b(1) st_def NewStateTransition_def cost_def)
  then show "GetBalance (st_state st') (From msg) = GetBalance (evm_StateDB evm) (From msg) - cost"
    by (simp add: GetBalance_def SubBalance_def)
  show "Gas msg \<le> gp" using b(2) by (simp add: st_def NewStateTransition_def)
  show "cost \<le> GetBalance (evm_StateDB evm) (From msg)"
    using b(3) by (simp add: st_def NewStateTransition_def cost_def)
qed

theorem buyGas_purchase_witness:
  "buyGas (NewStateTransition (example_evm (stub_executor 0 None 0))
             (example_msg (Some 3) 600000 5 []) 1000000)
     = (Some ErrInsufficientBalanceForGas,
        NewStateTransition (example_evm (stub_executor 0 None 0))
          (example_msg (Some 3) 600000 5 []) 1000000)
   \<and> snd (buyGas (NewStateTransition (example_evm (stub_executor 0 None 0))
                   (example_msg (Some 3) 100000 5 []) 30000))
     = NewStateTransition (example_evm (stub_executor 0 None 0))
         (example_msg (Some 3) 100000 5 []) 30000
   \<and> st_gas (snd (buyGas (NewStateTransition (example_evm (stub_executor 0 None 0))
                           (example_msg (Some 3) 100000 5 []) 1000000))) = 100000
   \<and> GetBalance (st_state (snd (buyGas (NewStateTransition (example_evm (stub_executor 0 None 0))
                           (example_msg (Some 3) 100000 5 []) 1000000)))) 1 = 800000
   \<and> st_gp (snd (buyGas (NewStateTransition (example_evm (stub_executor 0 None 0))
                           (example_msg (Some 3) 100000 5 []) 1000000))) = 900000"
proof -
  let ?evm = "example_evm (stub_executor 0 None 0)"
  let ?poor = "NewStateTransition ?evm (example_msg (Some 3) 600000 5 []) 1000000"
  let ?full = "NewStateTransition ?evm (example_msg (Some 3) 100000 5 []) 30000"
  let ?good = "NewStateTransition ?evm (example_msg (Some 3) 100000 5 []) 1000000"
  have poor: "GetBalance (evm_StateDB ?evm) (From (example_msg (Some 3) 600000 5 []))
                < uint (Gas (example_msg (Some 3) 600000 5 []))
                  * GasPrice (example_msg (Some 3) 600000 5 [])"
    by (simp add: ex_defs GetBalance_def)
  have full: "buyGas ?full = (Some ErrGasLimitReached, snd (buyGas ?full))"
    by (simp add: ex_defs buyGas_cases GetBalance_def)
  have good: "buyGas ?good = (None, snd (buyGas ?good))"
    by (simp add: ex_defs buyGas_cases GetBalance_def)
  note p = buyGas_purchase [of ?evm "example_msg (Some 3) 600000 5 []" 1000000]
  note f = buyGas_purchase [of ?evm "example_msg (Some 3) 100000 5 []" 30000]
  note g = buyGas_purchase [of ?evm "example_msg (Some 3) 100000 5 []" 1000000]
  have 1: "buyGas ?poor = (Some ErrInsufficientBalanceForGas, ?poor)"
    using p poor by blast
  have 2: "snd (buyGas ?full) = ?full"
    using f full by blast
  have 3: "st_gas (snd (buyGas ?good)) = Gas (example_msg (Some 3) 100000 5 [])"
    "GetBalance (st_state (snd (buyGas ?good))) (From (example_msg (Some 3) 100000 5 [])) =
       GetBalance (evm_StateDB ?evm) (From (example_msg (Some 3) 100000 5 []))
       - uint (Gas (example_msg (Some 3) 100000 5 [])) * GasPrice (example_msg (Some 3) 100000 5 [])"
    "st_gp (snd (buyGas ?good)) = 1000000 - Gas (example_msg (Some 3) 100000 5 [])"
    using g good by blast+
  have 4: "st_gas (snd (buyGas ?good)) = 100000"
    "GetBalance (st_state (snd (buyGas ?good))) 1 = 800000"
    "st_gp (snd (buyGas ?good)) = 900000"
    using 3 by (simp_all add: ex_defs GetBalance_def)
  from 1 2 4 show ?thesis by simp
qed

text \<open>
  \<^bold>\<open>C9.\<close> When the gas purchase succeeds and the intrinsic gas then fails, because its
  computation overflows or because the gas counter is below it, \<open>TransitionDb\<close> returns
  \<open>OutOfGas\<close> and leaves the transition as the purchase left it: the sender's balance
  debited by \<open>gasLimit * gasPrice\<close> and the pool reduced by \<open>gasLimit\<close>.
\<close>

theorem TransitionDb_out_of_gas_keeps_purchase:
  assumes pre: "preCheck st = (None, st0)"
    and oog: "case st_intrinsic ps st of Inl e \<Rightarrow> True | Inr ig \<Rightarrow> st_gas st0 < ig"
  shows "TransitionDb ps st = (([], 0, False, Some ErrOutOfGas), st0)
       \<and> st_gp st0 = st_gp st - Gas (st_msg st)
       \<and> st_state st0 = SubBalance (st_state st) (From (st_msg st))
                           (uint (Gas (st_msg st)) * st_gasPrice st)
       \<and> GetBalance (st_state st0) (From (st_msg st)) =
           GetBalance (st_state st) (From (st_msg st)) - uint (Gas (st_msg st)) * st_gasPrice st"
proof -
  note f0 = preCheck_frame [OF pre]
  have "TransitionDb ps st = (([], 0, False, Some ErrOutOfGas), st0)"
  proof (cases "st_intrinsic ps st")
    case (Inl e)
    then have "e = ErrOutOfGas" by (rule IntrinsicGas_Inl)
    with Inl pre show ?thesis by (simp add: TransitionDb_def f0)
  next
    case (Inr g)
    with oog have "st_gas st0 < g" by simp
    then have "useGas st0 g = (Some ErrOutOfGas, st0)" by (simp add: useGas_def)
    with Inr pre show ?thesis by (simp add: TransitionDb_def f0)
  qed
  then show ?thesis by (simp add: f0 GetBalance_def SubBalance_def)
qed

theorem TransitionDb_out_of_gas_keeps_purchase_witness:
  "result_err (fst (TransitionDb example_params
      (example_st (stub_executor 0 None 0) (Some 3) 20000 5 []))) = Some ErrOutOfGas
   \<and> GetBalance (st_state (snd (TransitionDb example_params
      (example_st (stub_executor 0 None 0) (Some 3) 20000 5 [])))) 1 = 960000
   \<and> st_gp (snd (TransitionDb example_params
      (example_st (stub_executor 0 None 0) (Some 3) 20000 5 []))) = 980000
   \<and> result_err (fst (TransitionDb steep_params
      (example_st (stub_executor 0 None 0) (Some 3) 100000 5 [1, 1]))) = Some ErrOutOfGas
   \<and> GetBalance (st_state (snd (TransitionDb steep_params
      (example_st (stub_executor 0 None 0) (Some 3) 100000 5 [1, 1])))) 1 = 800000
   \<and> st_gp (snd (TransitionDb steep_params
      (example_st (stub_executor 0 None 0) (Some 3) 100000 5 [1, 1]))) = 900000"
proof -
  let ?a = "example_st (stub_executor 0 None 0) (Some 3) 20000 5 []"
  let ?b = "example_st (stub_executor 0 None 0) (Some 3) 100000 5 [1, 1]"
  have pa: "preCheck ?a = (None, snd (preCheck ?a))"
    by (simp add: ex_defs preCheck_def GetNonce_def buyGas_cases GetBalance_def)
  have pb: "preCheck ?b = (None, snd (preCheck ?b))"
    by (simp add: ex_defs preCheck_def GetNonce_def buyGas_cases GetBalance_def)
  have ia: "st_intrinsic example_params ?a = Inr 21000"
    by (simp add: ex_defs IntrinsicGas_def)
  have ga: "st_gas (snd (preCheck ?a)) = 20000"
    using preCheck_frame(8) [OF pa] by (simp add: ex_defs)
  have oa: "case st_intrinsic example_params ?a of Inl e \<Rightarrow> True
            | Inr ig \<Rightarrow> st_gas (snd (preCheck ?a)) < ig"
    by (simp add: ia ga)
  have ib: "st_intrinsic steep_params ?b = Inl ErrOutOfGas"
    by (simp add: ex_defs IntrinsicGas_def MaxUint64_def)
  have ob: "case st_intrinsic steep_params ?b of Inl e \<Rightarrow> True
            | Inr ig \<Rightarrow> st_gas (snd (preCheck ?b)) < ig"
    by (simp add: ib)
  note ta = TransitionDb_out_of_gas_keeps_purchase [OF pa oa]
  note tb = TransitionDb_out_of_gas_keeps_purchase [OF pb ob]
  have a: "result_err (fst (TransitionDb example_params ?a)) = Some ErrOutOfGas"
    "GetBalance (st_state (snd (TransitionDb example_params ?a))) 1 = 960000"
    "st_gp (snd (TransitionDb example_params ?a)) = 980000"
    using ta by (simp_all add: result_err_def ex_defs GetBalance_def SubBalance_def)
  have b: "result_err (fst (TransitionDb steep_params ?b)) = Some ErrOutOfGas"
    "GetBalance (st_state (snd (TransitionDb steep_params ?b))) 1 = 800000"
    "st_gp (snd (TransitionDb steep_params ?b)) = 900000"
    using tb by (simp_all add: result_err_def ex_defs GetBalance_def SubBalance_def)
  from a b show ?thesis by simp
qed

text \<open>
  \<^bold>\<open>C4.\<close> When the transition reaches settlement (the purchase and the intrinsic gas
  succeed and the Executor does not return the insufficient-balance error), the refund
  applied is the smaller of half the gas used so far (integer division) and the refund
  counter of the world state; it is added to the gas counter; the sender is credited
  the remaining gas times the gas price; the remaining gas goes back to the pool; and
  the fee recipient is credited the gas used times the gas price, the gas used being
  \<open>initialGas\<close> minus the remaining gas after the refund. That gas used is what
  \<open>TransitionDb\<close> reports.
\<close>

theorem TransitionDb_settlement:
  fixes ps st st0 ig st1 ret vmerr st2
  defines "refundv \<equiv> min ((st_initialGas st2 - st_gas st2) div 2) (GetRefund (st_state st2))"
  defines "remaining \<equiv> st_gas st2 + refundv"
  defines "used \<equiv> st_initialGas st2 - remaining"
  assumes pre: "preCheck st = (None, st0)"
    and ig: "st_intrinsic ps st = Inr ig"
    and use: "useGas st0 ig = (None, st1)"
    and disp: "dispatch st1 = (ret, vmerr, st2)"
    and nohard: "vmerr \<noteq> Some ErrInsufficientBalance"
  shows "TransitionDb ps st =
           ((ret, used, vmerr \<noteq> None, None),
            st2\<lparr>st_gas := remaining,
                st_gp := AddGas (st_gp st2) remaining,
                st_state := AddBalance
                              (AddBalance (st_state st2) (From (st_msg st))
                                 (uint remaining * st_gasPrice st))
                              (Coinbase (st_evm st)) (uint used * st_gasPrice st)\<rparr>)
       \<and> refundv \<le> (st_initialGas st2 - st_gas st2) div 2
       \<and> refundv \<le> GetRefund (st_state st2)"
proof -
  have "TransitionDb ps st =
           ((ret, used, vmerr \<noteq> None, None),
            st2\<lparr>st_gas := remaining,
                st_gp := AddGas (st_gp st2) remaining,
                st_state := AddBalance
                              (AddBalance (st_state st2) (From (st_msg st))
                                 (uint remaining * st_gasPrice st))
                              (Coinbase (st_evm st)) (uint used * st_gasPrice st)\<rparr>)"
    unfolding used_def remaining_def refundv_def
    by (rule TransitionDb_settled [OF pre ig use disp nohard])
  then show ?thesis by (simp add: refundv_def)
qed

theorem TransitionDb_settlement_witness:
  "fst (TransitionDb example_params
          (example_st (stub_executor 30000 None 10000) (Some 3) 100000 5 []))
     = ([], 41000, False, None)
   \<and> st_gas (snd (TransitionDb example_params
          (example_st (stub_executor 30000 None 10000) (Some 3) 100000 5 []))) = 59000
   \<and> st_gp (snd (TransitionDb example_params
          (example_st (stub_executor 30000 None 10000) (Some 3) 100000 5 []))) = 959000
   \<and> GetBalance (st_state (snd (TransitionDb example_params
          (example_st (stub_executor 30000 None 10000) (Some 3) 100000 5 [])))) 1 = 918000
   \<and> GetBalance (st_state (snd (TransitionDb example_params
          (example_st (stub_executor 30000 None 10000) (Some 3) 100000 5 [])))) 2 = 82000"
proof -
  let ?st = "example_st (stub_executor 30000 None 10000) (Some 3) 100000 5 []"
  let ?sa = "?st\<lparr>st_gp := 900000, st_gas := 100000, st_initialGas := 100000,
                   st_state := SubBalance example_state 1 200000\<rparr>"
  let ?sb = "?sa\<lparr>st_gas := 79000\<rparr>"
  let ?sc = "?sb\<lparr>st_gas := 49000,
                    st_state := (SetNonce (SubBalance example_state 1 200000) 1 6)
                                  \<lparr>db_refund := 10000\<rparr>\<rparr>"
  have pre: "preCheck ?st = (None, ?sa)"
    by (simp add: preCheck_def buyGas_cases ex_sel db_defs)
  have ig: "st_intrinsic example_params ?st = Inr 21000"
    by (simp add: IntrinsicGas_def ex_sel example_params_def)
  have use: "useGas ?sa 21000 = (None, ?sb)"
    by (simp add: useGas_def)
  have disp: "dispatch ?sb = ([], None, ?sc)"
    by (simp add: dispatch_def Let_def to_def ex_sel db_defs)
  have nohard: "(None :: error option) \<noteq> Some ErrInsufficientBalance" by simp
  note t = TransitionDb_settlement [OF pre ig use disp nohard]
  show ?thesis
    using t by (simp add: ex_sel db_defs AddGas_def MaxUint64_def)
qed

text \<open>
  \<^bold>\<open>C1\<close> (as amended). When the Executor's \<open>create\<close> or \<open>call\<close> returns the
  insufficient-balance error, \<open>TransitionDb\<close> returns at once with that error, gas used
  zero and the \<open>failed\<close> flag \<^emph>\<open>false\<close>: on this path, as on every path that returns an
  error, the failure is reported by the error alone. No refund is settled and no fee is
  credited: the pool stays reduced by the gas limit, and the world state is the one the
  Executor left.
\<close>

theorem TransitionDb_insufficient_balance_hard_stop:
  assumes pre: "preCheck st = (None, st0)"
    and ig: "st_intrinsic ps st = Inr ig"
    and use: "useGas st0 ig = (None, st1)"
    and disp: "dispatch st1 = (ret, Some ErrInsufficientBalance, st2)"
  shows "TransitionDb ps st = (([], 0, False, Some ErrInsufficientBalance), st2)
       \<and> st_gp st2 = st_gp st - Gas (st_msg st)
       \<and> st_state st2 =
           (case To (st_msg st) of
              None \<Rightarrow> snd (Create (interpreter (st_evm st)) (st_state st0) (From (st_msg st))
                             (st_data st) (st_gas st0 - ig) (st_value st))
            | Some a \<Rightarrow> snd (Call (interpreter (st_evm st))
                             (SetNonce (st_state st0) (From (st_msg st))
                                (GetNonce (st_state st0) (From (st_msg st)) + 1))
                             (From (st_msg st)) a (st_data st) (st_gas st0 - ig) (st_value st)))"
proof -
  note f0 = preCheck_frame [OF pre]
  have s1: "st1 = st0\<lparr>st_gas := st_gas st0 - ig\<rparr>" using useGas_cases(2) [OF use] by simp
  note f2 = dispatch_frame [OF disp]
  have a: "TransitionDb ps st = (([], 0, False, Some ErrInsufficientBalance), st2)"
    using TransitionDb_dispatched [OF pre ig use disp] by simp
  have b: "st_gp st2 = st_gp st - Gas (st_msg st)" by (simp add: f2 s1 f0)
  have c: "st_state st2 =
           (case To (st_msg st) of
              None \<Rightarrow> snd (Create (interpreter (st_evm st)) (st_state st0) (From (st_msg st))
                             (st_data st) (st_gas st0 - ig) (st_value st))
            | Some a \<Rightarrow> snd (Call (interpreter (st_evm st))
                             (SetNonce (st_state st0) (From (st_msg st))
                                (GetNonce (st_state st0) (From (st_msg st)) + 1))
                             (From (st_msg st)) a (st_data st) (st_gas st0 - ig) (st_value st)))"
    using disp by (auto simp: dispatch_def Let_def s1 f0 to_def split: option.splits prod.splits)
  from a b c show ?thesis by simp
qed

theorem TransitionDb_insufficient_balance_hard_stop_witness:
  "fst (TransitionDb example_params
          (example_st (stub_executor 0 (Some ErrInsufficientBalance) 10000) None 100000 5 []))
     = ([], 0, False, Some ErrInsufficientBalance)
   \<and> st_gp (snd (TransitionDb example_params
          (example_st (stub_executor 0 (Some ErrInsufficientBalance) 10000) None 100000 5 [])))
     = 900000
   \<and> GetBalance (st_state (snd (TransitionDb example_params
          (example_st (stub_executor 0 (Some ErrInsufficientBalance) 10000) None 100000 5 [])))) 1
     = 800000
   \<and> GetBalance (st_state (snd (TransitionDb example_params
          (example_st (stub_executor 0 (Some ErrInsufficientBalance) 10000) None 100000 5 [])))) 2
     = 0"
proof -
  let ?st = "example_st (stub_executor 0 (Some ErrInsufficientBalance) 10000) None 100000 5 []"
  let ?sa = "?st\<lparr>st_gp := 900000, st_gas := 100000, st_initialGas := 100000,
                   st_state := SubBalance example_state 1 200000\<rparr>"
  let ?sb = "?sa\<lparr>st_gas := 47000\<rparr>"
  let ?sc = "?sb\<lparr>st_gas := 47000,
                    st_state := (SubBalance example_state 1 200000)\<lparr>db_refund := 10000\<rparr>\<rparr>"
  have pre: "preCheck ?st = (None, ?sa)"
    by (simp add: preCheck_def buyGas_cases ex_sel db_defs)
  have ig: "st_intrinsic example_params ?st = Inr 53000"
    by (simp add: IntrinsicGas_def ex_sel example_params_def)
  have use: "useGas ?sa 53000 = (None, ?sb)"
    by (simp add: useGas_def)
  have disp: "dispatch ?sb = ([], Some ErrInsufficientBalance, ?sc)"
    by (simp add: dispatch_def Let_def to_def ex_sel db_defs)
  note t = TransitionDb_insufficient_balance_hard_stop [OF pre ig use disp]
  show ?thesis
    using t by (simp add: ex_sel db_defs)
qed

text \<open>
  The claim as written asks for the failure status on this path. On a call whose
  Executor returns the insufficient-balance error, the \<open>failed\<close> flag returned is false.
\<close>

theorem TransitionDb_insufficient_balance_failed_flag_counterexample:
  "result_err (fst (TransitionDb example_params
      (example_st (stub_executor 0 (Some ErrInsufficientBalance) 0) (Some 3) 100000 5 [])))
     = Some ErrInsufficientBalance
   \<and> result_usedGas (fst (TransitionDb example_params
      (example_st (stub_executor 0 (Some ErrInsufficientBalance) 0) (Some 3) 100000 5 []))) = 0
   \<and> \<not> result_failed (fst (TransitionDb example_params
      (example_st (stub_executor 0 (Some ErrInsufficientBalance) 0) (Some 3) 100000 5 [])))"
  by (simp add: TransitionDb_def preCheck_def buyGas_cases IntrinsicGas_def useGas_def
      dispatch_def Let_def to_def ex_sel db_defs example_params_def
      result_err_def result_usedGas_def result_failed_def)

text \<open>
  \<^bold>\<open>C10.\<close> The nonces \<open>TransitionDb\<close> leaves, on every path. If the purchase or the
  intrinsic gas fails, they are the nonces it started with. Otherwise, for a message
  with a recipient, the world state handed to the Executor's \<open>call\<close> has the sender's
  nonce set to its current value plus one, and the nonces left are those of the world
  state that call leaves, whatever error it returns: nothing here takes the increment
  back. For a creation message the world state handed to \<open>create\<close> has the nonces the
  transition started with, and the nonces left are those \<open>create\<close> leaves.
\<close>

theorem TransitionDb_nonce:
  fixes ps st
  defines "sender \<equiv> From (st_msg st)"
  defines "st0 \<equiv> snd (preCheck st)"
  shows "db_nonce (st_state (snd (TransitionDb ps st))) =
           (if fst (preCheck st) = None then
              (case st_intrinsic ps st of
                 Inl err \<Rightarrow> db_nonce (st_state st)
               | Inr ig \<Rightarrow>
                   if st_gas st0 < ig then db_nonce (st_state st)
                   else
                     (case To (st_msg st) of
                        None \<Rightarrow>
                          db_nonce (snd (Create (interpreter (st_evm st)) (st_state st0) sender
                                           (st_data st) (st_gas st0 - ig) (st_value st)))
                      | Some a \<Rightarrow>
                          db_nonce (snd (Call (interpreter (st_evm st))
                                           (SetNonce (st_state st0) sender
                                              (GetNonce (st_state st) sender + 1))
                                           sender a (st_data st) (st_gas st0 - ig) (st_value st)))))
            else db_nonce (st_state st))
       \<and> db_nonce (st_state st0) = db_nonce (st_state st)
       \<and> GetNonce (SetNonce (st_state st0) sender (GetNonce (st_state st) sender + 1)) sender
           = GetNonce (st_state st) sender + 1"
proof -
  obtain perr s where p: "preCheck st = (perr, s)" by (cases "preCheck st") auto
  have s: "st0 = s" by (simp add: st0_def p)
  have third: "GetNonce (SetNonce (st_state st0) sender (GetNonce (st_state st) sender + 1)) sender
           = GetNonce (st_state st) sender + 1"
    by (simp add: GetNonce_def SetNonce_def)
  show ?thesis
  proof (cases perr)
    case (Some err)
    have "s = st"
      using p Some buyGas_Some [of st err s]
      by (auto simp: preCheck_def Let_def split: if_splits)
    with p Some third show ?thesis
      unfolding s by (simp add: TransitionDb_def)
  next
    case None
    with p have pre: "preCheck st = (None, s)" by simp
    note f0 = preCheck_frame [OF pre]
    have n0: "db_nonce (st_state s) = db_nonce (st_state st)"
      by (simp add: f0 SubBalance_def)
    show ?thesis
    proof (cases "st_intrinsic ps st")
      case (Inl err)
      with pre n0 third show ?thesis
        unfolding s by (simp add: TransitionDb_def f0)
    next
      case (Inr ig)
      show ?thesis
      proof (cases "st_gas s < ig")
        case True
        then have "useGas s ig = (Some ErrOutOfGas, s)" by (simp add: useGas_def)
        with pre Inr True n0 third show ?thesis
          unfolding s by (simp add: TransitionDb_def f0)
      next
        case False
        then have use: "useGas s ig = (None, s\<lparr>st_gas := st_gas s - ig\<rparr>)"
          by (simp add: useGas_def)
        obtain ret vmerr st2 where disp: "dispatch (s\<lparr>st_gas := st_gas s - ig\<rparr>) = (ret, vmerr, st2)"
          by (cases "dispatch (s\<lparr>st_gas := st_gas s - ig\<rparr>)") auto
        have fin: "db_nonce (st_state (snd (TransitionDb ps st))) = db_nonce (st_state st2)"
          using TransitionDb_dispatched [OF pre Inr use disp]
          by (simp add: Let_def refundGas_eq AddBalance_def)
        have "db_nonce (st_state st2) =
                (case To (st_msg st) of
                        None \<Rightarrow>
                          db_nonce (snd (Create (interpreter (st_evm st)) (st_state s) sender
                                           (st_data st) (st_gas s - ig) (st_value st)))
                      | Some a \<Rightarrow>
                          db_nonce (snd (Call (interpreter (st_evm st))
                                           (SetNonce (st_state s) sender
                                              (GetNonce (st_state st) sender + 1))
                                           sender a (st_data st) (st_gas s - ig) (st_value st))))"
          using disp n0
          by (auto simp: dispatch_def Let_def f0 to_def sender_def GetNonce_def
              split: option.splits prod.splits)
        with fin pre Inr False n0 third show ?thesis
          unfolding s by simp
      qed
    qed
  qed
qed

theorem TransitionDb_nonce_witness:
  "GetNonce (st_state (snd (TransitionDb example_params
      (example_st (stub_executor 30000 (Some (ErrOther ''revert'')) 0) (Some 3) 100000 5 [])))) 1
     = 6
   \<and> GetNonce (st_state (snd (TransitionDb example_params
      (example_st (stub_executor 30000 None 0) None 100000 5 [])))) 1
     = 5"
proof -
  let ?st = "example_st (stub_executor 30000 (Some (ErrOther ''revert'')) 0) (Some 3) 100000 5 []"
  let ?ct = "example_st (stub_executor 30000 None 0) None 100000 5 []"
  have pre: "preCheck ?st = (None, ?st\<lparr>st_gp := 900000, st_gas := 100000,
                 st_initialGas := 100000, st_state := SubBalance example_state 1 200000\<rparr>)"
    by (simp add: preCheck_def buyGas_cases ex_sel db_defs)
  have cpre: "preCheck ?ct = (None, ?ct\<lparr>st_gp := 900000, st_gas := 100000,
                 st_initialGas := 100000, st_state := SubBalance example_state 1 200000\<rparr>)"
    by (simp add: preCheck_def buyGas_cases ex_sel db_defs)
  have 1: "GetNonce (st_state (snd (TransitionDb example_params ?st))) 1 = 6"
    using TransitionDb_nonce [of example_params ?st]
    by (simp add: pre ex_sel db_defs IntrinsicGas_def example_params_def)
  have 2: "GetNonce (st_state (snd (TransitionDb example_params ?ct))) 1 = 5"
    using TransitionDb_nonce [of example_params ?ct]
    by (simp add: cpre ex_sel db_defs IntrinsicGas_def example_params_def)
  from 1 2 show ?thesis by simp
qed

text \<open>
  \<^bold>\<open>C8.\<close> When \<open>ApplyTransaction\<close> returns a receipt, the transaction has a sender whose
  nonce in the state database before the transition is the transaction's nonce, and the
  receipt's contract address is \<open>CreateAddress\<close> of that sender and that nonce if the
  transaction has no recipient, and is left as \<open>NewReceipt\<close> set it, the zero address,
  if it has one.
\<close>

theorem ApplyTransaction_contract_address:
  assumes "ApplyTransaction env config author gp statedb header tx usedGas =
             (Inr (receipt, gas), gp', statedb', usedGas')"
  shows "\<exists>sender. env_Sender env (hdr_Number header) tx = Inr sender
           \<and> GetNonce statedb sender = tx_nonce tx
           \<and> ContractAddress receipt =
               (case tx_recipient tx of
                  None \<Rightarrow> env_CreateAddress env sender (tx_nonce tx)
                | Some a \<Rightarrow> 0)"
proof (cases "env_Sender env (hdr_Number header) tx")
  case (Inl err)
  with assms show ?thesis by (simp add: ApplyTransaction_def AsMessage_def)
next
  case (Inr sender)
  let ?msg = "\<lparr>From = sender, To = tx_recipient tx, GasPrice = tx_price tx,
                Gas = tx_gasLimit tx, Value = tx_amount tx, Nonce = tx_nonce tx,
                CheckNonce = True, Data = tx_payload tx\<rparr>"
  let ?vmenv = "NewEVM env (NewEVMContext env ?msg header author) statedb config"
  let ?st = "NewStateTransition ?vmenv ?msg gp"
  have msg: "AsMessage env tx (hdr_Number header) = Inr ?msg"
    by (simp add: AsMessage_def Inr)
  obtain r g f e st' where res: "TransitionDb (env_params env) ?st = ((r, g, f, e), st')"
    by (metis prod_cases4 surj_pair)
  have e: "e = None"
    using assms by (cases e) (simp_all add: ApplyTransaction_def msg ApplyMessage_def res Let_def)
  have origin: "\<And>m. Origin (NewEVM env (NewEVMContext env m header author) statedb config) = From m"
    by (simp add: NewEVM_def NewEVMContext_def)
  have ca: "ContractAddress receipt =
      (case tx_recipient tx of None \<Rightarrow> env_CreateAddress env sender (tx_nonce tx) | Some a \<Rightarrow> 0)"
    using assms
    by (auto simp: ApplyTransaction_def msg ApplyMessage_def res e Let_def origin NewReceipt_def
        split: prod.splits if_splits option.splits)
  have "fst (preCheck ?st) = None"
  proof (rule ccontr)
    assume "fst (preCheck ?st) \<noteq> None"
    then obtain err s where "preCheck ?st = (Some err, s)"
      by (cases "preCheck ?st") auto
    then have "TransitionDb (env_params env) ?st = (([], 0, False, Some err), s)"
      by (simp add: TransitionDb_def)
    with res e show False by simp
  qed
  then obtain s where "preCheck ?st = (None, s)"
    by (cases "preCheck ?st") auto
  from preCheck_None(2) [OF this]
  have nonce: "GetNonce statedb sender = tx_nonce tx"
    by (simp add: NewStateTransition_def NewEVM_def)
  from Inr nonce ca show ?thesis
    by simp
qed

theorem ApplyTransaction_contract_address_witness:
  "map_option ContractAddress (applied_receipt
     (ApplyTransaction (example_env (stub_executor 30000 None 0)) example_config None 1000000
        example_state example_header (example_tx None 100000 5) 0)) = Some 1006
   \<and> map_option ContractAddress (applied_receipt
     (ApplyTransaction (example_env (stub_executor 30000 None 0)) example_config None 1000000
        example_state example_header (example_tx (Some 3) 100000 5) 0)) = Some 0"
proof -
  let ?env = "example_env (stub_executor 30000 None 0)"
  let ?c = "ApplyTransaction ?env example_config None 1000000
        example_state example_header (example_tx None 100000 5) 0"
  let ?t = "ApplyTransaction ?env example_config None 1000000
        example_state example_header (example_tx (Some 3) 100000 5) 0"
  have c: "?c = (Inr (fst (projr (fst ?c)), snd (projr (fst ?c))),
                 fst (snd ?c), fst (snd (snd ?c)), snd (snd (snd ?c)))"
    by (simp add: ApplyTransaction_def AsMessage_def ApplyMessage_def TransitionDb_def
        preCheck_def buyGas_cases IntrinsicGas_def useGas_def dispatch_def Let_def to_def
        NewStateTransition_def NewEVM_def NewEVMContext_def refundGas_eq gasUsed_def
        example_env_def example_tx_def example_header_def example_params_def
        ex_sel db_defs)
  have t: "?t = (Inr (fst (projr (fst ?t)), snd (projr (fst ?t))),
                 fst (snd ?t), fst (snd (snd ?t)), snd (snd (snd ?t)))"
    by (simp add: ApplyTransaction_def AsMessage_def ApplyMessage_def TransitionDb_def
        preCheck_def buyGas_cases IntrinsicGas_def useGas_def dispatch_def Let_def to_def
        NewStateTransition_def NewEVM_def NewEVMContext_def refundGas_eq gasUsed_def
        example_env_def example_tx_def example_header_def example_params_def
        ex_sel db_defs)
  have "\<exists>x. fst ?c = Inr x" using c by (metis fst_conv)
  then have rc: "applied_receipt ?c = Some (fst (projr (fst ?c)))"
    by (auto simp: applied_receipt_def split: prod.splits)
  have "\<exists>x. fst ?t = Inr x" using t by (metis fst_conv)
  then have rt: "applied_receipt ?t = Some (fst (projr (fst ?t)))"
    by (auto simp: applied_receipt_def split: prod.splits)
  have 1: "ContractAddress (fst (projr (fst ?c))) = 1006"
    using ApplyTransaction_contract_address [OF c]
    by (simp add: example_env_def example_tx_def)
  have 2: "ContractAddress (fst (projr (fst ?t))) = 0"
    using ApplyTransaction_contract_address [OF t]
    by (simp add: example_env_def example_tx_def)
  from 1 2 rc rt show ?thesis by simp
qed

text \<open>
  \<^bold>\<open>C6.\<close> \<open>Process\<close> applies the transactions in list order. When the transactions
  before \<open>tx\<close> are all applied without error and \<open>ApplyTransaction\<close> then returns an
  error on \<open>tx\<close>, run on the gas pool, the state database and the gas total the earlier
  ones left, \<open>Process\<close> returns that error with no receipts, no logs and a gas total of
  zero. The state database is left as the failed application left it: whatever
  transactions follow \<open>tx\<close> in the block, none of them is applied.
\<close>

theorem Process_stops_at_first_error:
  fixes env config block statedb pre tx post
  defines "header \<equiv> blk_header block"
  defines "statedb1 \<equiv> (if DAOForkSupport config \<and> DAOForkBlock config = Some (hdr_Number header)
                         then env_ApplyDAOHardFork env statedb else statedb)"
  assumes txs: "blk_transactions block = pre @ tx # post"
    and ok: "Process_loop env config header (blk_hash block) 0 pre
               ([], [], 0, AddGas 0 (hdr_GasLimit header), statedb1)
             = (None, receipts, allLogs, usedGas, gp, sdb)"
    and bad: "ApplyTransaction env config None gp
                (Prepare sdb (tx_hash tx) (blk_hash block) (length pre)) header tx usedGas
              = (Inl err, gp', sdb', usedGas')"
  shows "Process env config block statedb = (([], [], 0, Some err), sdb')
       \<and> (\<forall>post'. Process env config (block\<lparr>blk_transactions := pre @ tx # post'\<rparr>) statedb
                      = (([], [], 0, Some err), sdb'))"
proof -
  have loop: "Process_loop env config header (blk_hash block) 0 (pre @ tx # rest)
               ([], [], 0, AddGas 0 (hdr_GasLimit header), statedb1)
        = (Some err, receipts, allLogs, usedGas', gp', sdb')" for rest
  proof -
    have "Process_loop env config header (blk_hash block) 0 (pre @ tx # rest)
                 ([], [], 0, AddGas 0 (hdr_GasLimit header), statedb1)
          = Process_loop env config header (blk_hash block) (length pre) (tx # rest)
              (receipts, allLogs, usedGas, gp, sdb)"
      by (simp add: Process_loop_append ok)
    also have "\<dots> = (Some err, receipts, allLogs, usedGas', gp', sdb')"
      by (rule Process_loop_Cons_err [OF bad])
    finally show ?thesis .
  qed
  have here: "Process env config block statedb = (([], [], 0, Some err), sdb')"
    using loop [of post] by (simp add: Process_def Let_def txs header_def statedb1_def)
  have other: "Process env config (block\<lparr>blk_transactions := pre @ tx # post'\<rparr>) statedb
                 = (([], [], 0, Some err), sdb')" for post'
    using loop [of post'] by (simp add: Process_def Let_def header_def statedb1_def)
  from here other show ?thesis by simp
qed

theorem Process_stops_at_first_error_witness:
  "fst (Process (example_env (stub_executor 0 None 0)) example_config
          (example_block [example_tx (Some 3) 21000 5, example_tx (Some 3) 21000 6,
                          example_tx (Some 3) 21000 7])
          example_state)
     = ([], [], 0, Some ErrGasLimitReached)
   \<and> GetNonce (snd (Process (example_env (stub_executor 0 None 0)) example_config
          (example_block [example_tx (Some 3) 21000 5, example_tx (Some 3) 21000 6,
                          example_tx (Some 3) 21000 7])
          example_state)) 1 = 6
   \<and> GetBalance (snd (Process (example_env (stub_executor 0 None 0)) example_config
          (example_block [example_tx (Some 3) 21000 5, example_tx (Some 3) 21000 6,
                          example_tx (Some 3) 21000 7])
          example_state)) 1 = 958000"
proof -
  let ?env = "example_env (stub_executor 0 None 0)"
  let ?ta = "example_tx (Some 3) 21000 5"
  let ?tb = "example_tx (Some 3) 21000 6"
  let ?tc = "example_tx (Some 3) 21000 7"
  let ?block = "example_block [?ta, ?tb, ?tc]"
  let ?receipt = "\<lparr>PostState = [], Status = ReceiptStatusSuccessful, CumulativeGasUsed = 21000,
                   Bloom = 0, Logs = [], TxHash = 5, ContractAddress = 0, GasUsed = 21000\<rparr>"
  let ?sdb = "AddBalance (AddBalance
                ((SetNonce (SubBalance (Prepare example_state 5 7 0) 1 42000) 1 6)\<lparr>db_refund := 0\<rparr>)
                1 0) 2 42000"
  have txs: "blk_transactions ?block = [?ta] @ ?tb # [?tc]"
    by (simp add: example_block_def)
  have ok: "Process_loop ?env example_config (blk_header ?block) (blk_hash ?block) 0 [?ta]
              ([], [], 0, AddGas 0 (hdr_GasLimit (blk_header ?block)),
               (if DAOForkSupport example_config
                   \<and> DAOForkBlock example_config = Some (hdr_Number (blk_header ?block))
                then env_ApplyDAOHardFork ?env example_state else example_state))
            = (None, [?receipt], [], 21000, 9000, ?sdb)"
    by (simp add: ApplyTransaction_def AsMessage_def ApplyMessage_def TransitionDb_def
        preCheck_def buyGas_cases IntrinsicGas_def useGas_def dispatch_def Let_def to_def
        NewStateTransition_def NewEVM_def NewEVMContext_def refundGas_eq gasUsed_def
        NewReceipt_def GetLogs_def Prepare_def AddGas_def MaxUint64_def
        example_env_def example_tx_def example_header_def example_block_def example_params_def
        example_config_sel example_state_def stub_executor_def db_defs)
  have bad: "ApplyTransaction ?env example_config None 9000
               (Prepare ?sdb (tx_hash ?tb) (blk_hash ?block) (length [?ta]))
               (blk_header ?block) ?tb 21000
             = (Inl ErrGasLimitReached, 9000,
                Prepare ?sdb (tx_hash ?tb) (blk_hash ?block) (length [?ta]), 21000)"
    by (simp add: ApplyTransaction_def AsMessage_def ApplyMessage_def TransitionDb_def
        preCheck_def buyGas_cases Let_def
        NewStateTransition_def NewEVM_def NewEVMContext_def Prepare_def
        example_env_def example_tx_def example_header_def example_block_def
        example_state_def db_defs)
  note t = Process_stops_at_first_error [OF txs ok bad]
  show ?thesis
    using t by (simp add: Prepare_def db_defs example_state_def)
qed

text \<open>
  \<^bold>\<open>C7\<close> (as amended). When the Executor returns an error other than the
  insufficient-balance one, on a transaction of the block that passes the purchase and
  the intrinsic gas, \<open>ApplyTransaction\<close> returns no error and a receipt with the failed
  status. The gas the receipt records is the intrinsic gas plus what the Executor used,
  \<^emph>\<open>less the refund that settlement applies\<close>, the smaller of half that sum and the
  refund counter of the world state the Executor left (so it is that sum when the
  counter is zero). The fee recipient is credited that gas times the gas price, and the
  loop of \<open>Process\<close> goes on to the next transaction with the receipt appended.
\<close>

theorem executor_error_gives_failed_receipt:
  fixes env config header bh i tx txs receipts allLogs usedGas gp sdb msg st st0 ig st1 ret e st2
  defines "statedb \<equiv> Prepare sdb (tx_hash tx) bh i"
  defines "execUsed \<equiv> st_gas st1 - st_gas st2"
  defines "refundv \<equiv> min ((ig + execUsed) div 2) (GetRefund (st_state st2))"
  defines "gasv \<equiv> ig + execUsed - refundv"
  defines "settled \<equiv> AddBalance
                        (AddBalance (st_state st2) (From msg)
                           (uint (st_gas st2 + refundv) * GasPrice msg))
                        (env_Author env header) (uint gasv * GasPrice msg)"
  defines "statedb' \<equiv> (if IsByzantium config (hdr_Number header)
                         then env_Finalise env settled True
                         else snd (env_IntermediateRoot env settled
                                     (IsEIP158 config (hdr_Number header))))"
  defines "gp' \<equiv> AddGas (gp - Gas msg) (st_gas st2 + refundv)"
  assumes msg: "AsMessage env tx (hdr_Number header) = Inr msg"
    and st: "st = NewStateTransition
                    (NewEVM env (NewEVMContext env msg header None) statedb config) msg gp"
    and pre: "preCheck st = (None, st0)"
    and ig: "st_intrinsic (env_params env) st = Inr ig"
    and use: "useGas st0 ig = (None, st1)"
    and disp: "dispatch st1 = (ret, Some e, st2)"
    and ne: "e \<noteq> ErrInsufficientBalance"
  shows "\<exists>receipt.
           ApplyTransaction env config None gp statedb header tx usedGas
             = (Inr (receipt, gasv), gp', statedb', usedGas + gasv)
         \<and> Status receipt = ReceiptStatusFailed
         \<and> GasUsed receipt = gasv
         \<and> CumulativeGasUsed receipt = usedGas + gasv
         \<and> (GetRefund (st_state st2) = 0 \<longrightarrow> gasv = ig + execUsed)
         \<and> Process_loop env config header bh i (tx # txs) (receipts, allLogs, usedGas, gp, sdb)
             = Process_loop env config header bh (Suc i) txs
                 (receipts @ [receipt], allLogs @ Logs receipt, usedGas + gasv, gp', statedb')"
proof -
  note f0 = preCheck_frame [OF pre]
  have s1: "st1 = st0\<lparr>st_gas := st_gas st0 - ig\<rparr>" using useGas_cases(2) [OF use] by simp
  note f2 = dispatch_frame [OF disp]
  have stf: "st_msg st = msg" "st_gasPrice st = GasPrice msg" "st_gp st = gp" "st_gas st = 0"
    "Coinbase (st_evm st) = env_Author env header"
    by (simp_all add: st NewStateTransition_def NewEVM_def NewEVMContext_def)
  have init: "st_initialGas st2 = Gas msg" "st_gas st1 = Gas msg - ig"
    by (simp_all add: f2 s1 f0 stf)
  have used0: "st_initialGas st2 - st_gas st2 = ig + execUsed"
    by (simp add: init execUsed_def)
  have used: "st_initialGas st2 - (st_gas st2 + refundv) = gasv"
    by (simp add: init execUsed_def gasv_def)
  have hard: "Some e \<noteq> Some ErrInsufficientBalance" using ne by simp
  have rv: "min ((st_initialGas st2 - st_gas st2) div 2) (GetRefund (st_state st2)) = refundv"
    by (simp only: used0 refundv_def)
  have "TransitionDb (env_params env) st =
           ((ret, gasv, Some e \<noteq> None, None),
            st2\<lparr>st_gas := st_gas st2 + refundv,
                st_gp := AddGas (st_gp st2) (st_gas st2 + refundv),
                st_state := settled\<rparr>)"
    using TransitionDb_settled [OF pre ig use disp hard]
    unfolding rv used stf settled_def .
  then have res: "TransitionDb (env_params env)
        (NewStateTransition (NewEVM env (NewEVMContext env msg header None) statedb config) msg gp)
      = ((ret, gasv, True, None),
            st2\<lparr>st_gas := st_gas st2 + refundv,
                st_gp := AddGas (st_gp st2) (st_gas st2 + refundv),
                st_state := settled\<rparr>)"
    by (simp add: st)
  have gpv: "AddGas (st_gp st2) (st_gas st2 + refundv) = gp'"
    by (simp add: gp'_def f2 s1 f0 stf)
  from ApplyTransaction_settled [OF msg res, of usedGas]
  obtain receipt where r:
    "ApplyTransaction env config None gp statedb header tx usedGas
       = (Inr (receipt, gasv), gp', statedb', usedGas + gasv)"
    "Status receipt = ReceiptStatusFailed" "GasUsed receipt = gasv"
    "CumulativeGasUsed receipt = usedGas + gasv"
    by (auto simp: gpv statedb'_def)
  have loop: "Process_loop env config header bh i (tx # txs) (receipts, allLogs, usedGas, gp, sdb)
             = Process_loop env config header bh (Suc i) txs
                 (receipts @ [receipt], allLogs @ Logs receipt, usedGas + gasv, gp', statedb')"
    using r(1) unfolding statedb_def by (rule Process_loop_Cons_ok)
  have zero: "GetRefund (st_state st2) = 0 \<longrightarrow> gasv = ig + execUsed"
    by (simp add: gasv_def refundv_def)
  from r loop zero show ?thesis by blast
qed

theorem executor_error_gives_failed_receipt_witness:
  "map_option Status (applied_receipt
     (ApplyTransaction (example_env (stub_executor 30000 (Some (ErrOther ''revert'')) 0))
        example_config None 1000000 (Prepare example_state 5 7 0) example_header
        (example_tx (Some 3) 100000 5) 0)) = Some ReceiptStatusFailed
   \<and> map_option GasUsed (applied_receipt
     (ApplyTransaction (example_env (stub_executor 30000 (Some (ErrOther ''revert'')) 0))
        example_config None 1000000 (Prepare example_state 5 7 0) example_header
        (example_tx (Some 3) 100000 5) 0)) = Some 51000
   \<and> applied_err
     (ApplyTransaction (example_env (stub_executor 30000 (Some (ErrOther ''revert'')) 0))
        example_config None 1000000 (Prepare example_state 5 7 0) example_header
        (example_tx (Some 3) 100000 5) 0) = None
   \<and> GetBalance (fst (snd (snd
     (ApplyTransaction (example_env (stub_executor 30000 (Some (ErrOther ''revert'')) 0))
        example_config None 1000000 (Prepare example_state 5 7 0) example_header
        (example_tx (Some 3) 100000 5) 0)))) 2 = 102000
   \<and> fst (Process_loop (example_env (stub_executor 30000 (Some (ErrOther ''revert'')) 0))
        example_config example_header 7 0 [example_tx (Some 3) 100000 5]
        ([], [], 0, 1000000, example_state)) = None"
proof -
  let ?env = "example_env (stub_executor 30000 (Some (ErrOther ''revert'')) 0)"
  let ?tx = "example_tx (Some 3) 100000 5"
  let ?msg = "example_msg (Some 3) 100000 5 []"
  let ?db = "Prepare example_state (tx_hash ?tx) 7 0"
  let ?st = "NewStateTransition
               (NewEVM ?env (NewEVMContext ?env ?msg example_header None) ?db example_config)
               ?msg 1000000"
  let ?sa = "?st\<lparr>st_gp := 900000, st_gas := 100000, st_initialGas := 100000,
                   st_state := SubBalance ?db 1 200000\<rparr>"
  let ?sb = "?sa\<lparr>st_gas := 79000\<rparr>"
  let ?sc = "?sb\<lparr>st_gas := 49000,
                    st_state := (SetNonce (SubBalance ?db 1 200000) 1 6)\<lparr>db_refund := 0\<rparr>\<rparr>"
  let ?A = "ApplyTransaction ?env example_config None 1000000 ?db example_header ?tx 0"
  have h: "tx_hash ?tx = 5" by (simp add: example_tx_def)
  have msg: "AsMessage ?env ?tx (hdr_Number example_header) = Inr ?msg"
    by (simp add: AsMessage_def example_env_def example_tx_def example_msg_def)
  have st: "?st = ?st" by simp
  have pre: "preCheck ?st = (None, ?sa)"
    by (simp add: preCheck_def buyGas_cases NewStateTransition_def NewEVM_def Prepare_def
        ex_sel db_defs)
  have ig: "st_intrinsic (env_params ?env) ?st = Inr 21000"
    by (simp add: IntrinsicGas_def NewStateTransition_def NewEVM_def NewEVMContext_def
        example_env_def example_params_def ex_sel)
  have use: "useGas ?sa 21000 = (None, ?sb)"
    by (simp add: useGas_def)
  have disp: "dispatch ?sb = ([], Some (ErrOther ''revert''), ?sc)"
    by (simp add: dispatch_def Let_def to_def NewStateTransition_def NewEVM_def
        example_env_def ex_sel db_defs Prepare_def)
  have ne: "ErrOther ''revert'' \<noteq> ErrInsufficientBalance" by simp
  show ?thesis
    using executor_error_gives_failed_receipt [OF msg st pre ig use disp ne,
      where txs = "[]" and receipts = "[]" and allLogs = "[]" and usedGas = 0]
    by (auto simp: applied_receipt_def applied_err_def ex_sel db_defs AddGas_def MaxUint64_def
        example_env_def Prepare_def h)
qed

text \<open>
  The claim as written gives the gas consumed as the intrinsic gas plus what the Executor
  used. With an Executor that uses 30000 gas, returns an error and leaves a refund
  counter of 10000, on a plain call of intrinsic gas 21000, the receipt records 41000.
\<close>

theorem executor_error_gas_counterexample:
  "map_option Status (applied_receipt
     (ApplyTransaction (example_env (stub_executor 30000 (Some (ErrOther ''revert'')) 10000))
        example_config None 1000000 example_state example_header
        (example_tx (Some 3) 100000 5) 0)) = Some ReceiptStatusFailed
   \<and> map_option GasUsed (applied_receipt
     (ApplyTransaction (example_env (stub_executor 30000 (Some (ErrOther ''revert'')) 10000))
        example_config None 1000000 example_state example_header
        (example_tx (Some 3) 100000 5) 0)) = Some 41000
   \<and> IntrinsicGas example_params (tx_payload (example_tx (Some 3) 100000 5)) False True
       = Inr 21000
   \<and> fst (snd (fst (Call (stub_executor 30000 (Some (ErrOther ''revert'')) 10000)
                        example_state 1 3 [] (100000 - 21000) 0)))
       = 100000 - 21000 - 30000
   \<and> (41000 :: u64) \<noteq> 21000 + 30000"
  by (simp add: ApplyTransaction_def AsMessage_def ApplyMessage_def TransitionDb_def
      preCheck_def buyGas_cases IntrinsicGas_def useGas_def dispatch_def Let_def to_def
      NewStateTransition_def NewEVM_def NewEVMContext_def refundGas_eq gasUsed_def
      NewReceipt_def applied_receipt_def
      example_env_def example_tx_def example_header_def example_params_def
      ex_sel db_defs)

end
